theory Spec2Isabelle
  imports Main
begin

section \<open>Data model\<close>

text \<open>
  The account store is the Prisma client of \<^verbatim>\<open>userAuthDbServices\<close>: three tables, each a
  list of rows in creation order. Timestamps are milliseconds since the epoch.
  \<^verbatim>\<open>accountConfirmation\<close> is the one-to-one relation of a user row, created with it by
  \<^verbatim>\<open>createUser\<close>; the blog relations (likes, comments, saves) of a user are left out.
\<close>

record AccountConfirmation =
  ac_token :: string
  ac_code :: string
  ac_timestamp :: "int option"
  ac_isVerified :: bool

record User =
  u_userId :: string
  u_name :: string
  u_email :: string
  u_username :: string
  u_password :: string
  u_lastLoginAt :: "int option"
  u_accountConfirmation :: "AccountConfirmation option"

text \<open>
  \<^verbatim>\<open>rt_updatedAt\<close> is written by the update branch of the upsert only; the create branch
  leaves it to the column default, which is \<open>None\<close> here.
\<close>

record RefreshToken =
  rt_userId :: string
  rt_token :: string
  rt_updatedAt :: "int option"

record PasswordRecovery =
  pr_userId :: string
  pr_token :: "string option"
  pr_expiry :: "int option"
  pr_lastResetAt :: "int option"

record prisma =
  tbl_user :: "User list"
  tbl_refreshToken :: "RefreshToken list"
  tbl_passwordRecovery :: "PasswordRecovery list"

text \<open>
  What a query hands to the controller (\<^verbatim>\<open>IUser\<close>): the fields its \<^verbatim>\<open>select\<close> or
  \<^verbatim>\<open>include\<close> asks for. A field that was not selected is \<open>None\<close>.
\<close>

record IUser =
  userId :: string
  name :: "string option"
  email :: string
  username :: string
  password :: "string option"
  accountConfirmation :: "AccountConfirmation option"

record IDecryptedToken =
  jwt_userId :: string
  jwt_email :: string
  jwt_username :: string

record IUserInterface =
  pl_name :: string
  pl_username :: string
  pl_email :: string
  pl_password :: string
  pl_accountConfirmation :: AccountConfirmation

section \<open>Collaborators outside the controller\<close>

text \<open>
  \<^verbatim>\<open>utils/quicker\<close>, \<^verbatim>\<open>services/sendEmailService\<close>, the constants and two of the zod
  schemas are parameters of the model. A mail function returns \<open>True\<close> when the awaited
  promise resolves and \<open>False\<close> when it rejects. \<^verbatim>\<open>generateRandomToken\<close>,
  \<^verbatim>\<open>generateOTP\<close>, the clock and the key of a new user row are the values drawn by the
  request at hand.
\<close>

datatype token_error = TokenInvalid | TokenExpired | TokenMalformed

record quicker =
  hashPassword :: "string \<Rightarrow> string"
  comparePassword :: "string \<Rightarrow> string \<Rightarrow> bool"
  generateToken :: "IDecryptedToken \<Rightarrow> string \<Rightarrow> string \<Rightarrow> string"
  verifyToken :: "string \<Rightarrow> string \<Rightarrow> token_error + IDecryptedToken"
  generateRandomToken :: string
  generateOTP :: string

record sendEmailService =
  sendVerificationEmail :: "string \<Rightarrow> string \<Rightarrow> string \<Rightarrow> string \<Rightarrow> bool"
  accountConfirmedEmail :: "string \<Rightarrow> string option \<Rightarrow> bool"
  sendPasswordResetLink :: "string \<Rightarrow> string option \<Rightarrow> string \<Rightarrow> bool"
  sendPasswordChangeEmail :: "string \<Rightarrow> string option \<Rightarrow> bool"

record AppConfig =
  ACCESS_TOKEN_SECRET :: string
  REFRESH_TOKEN_SECRET :: string
  ACCESS_TOKEN_EXPIRY :: string
  REFRESH_TOKEN_EXPIRY :: string

record EUserTypeConstants =
  MIN_NAME_LENGTH :: nat
  MAX_NAME_LENGTH :: nat
  MIN_USERNAME_LENGTH :: nat
  MAX_USERNAME_LENGTH :: nat
  MIN_PASSWORD_LENGTH :: nat
  MAX_PASSWORD_LENGTH :: nat

datatype issue =
  Required string | TooSmall string nat | TooBig string nat | InvalidEmail string
  | Mismatch string

record register_body =
  rb_name :: "string option"
  rb_email :: "string option"
  rb_username :: "string option"
  rb_password :: "string option"

record RegisterUserType =
  reg_name :: string
  reg_email :: string
  reg_username :: string
  reg_password :: string

record login_body =
  lb_email :: "string option"
  lb_password :: "string option"

record LoginUserType =
  login_email :: string
  login_password :: string

record forgot_body =
  fb_email :: "string option"

record reset_body =
  sb_newPassword :: "string option"
  sb_confirmNewPassword :: "string option"

record ResetPasswordType =
  newPassword :: string
  confirmNewPassword :: string

record env =
  quick :: quicker
  mail :: sendEmailService
  config :: AppConfig
  constants :: EUserTypeConstants
  isEmail :: "string \<Rightarrow> bool"
  forgotPasswordSchema :: "forgot_body \<Rightarrow> issue list + string"
  resetPasswordSchema :: "reset_body \<Rightarrow> issue list + ResetPasswordType"
  now :: int
  newUserId :: string

section \<open>Requests and responses\<close>

datatype EErrorStatusCode =
  BAD_REQUEST | UNAUTHORIZED | FORBIDDEN | NOT_FOUND | CONFLICT | INTERNAL_SERVER_ERROR

datatype EResponseStatusCode = OK | CREATED

datatype EResponseMessage =
  USERNAME_TAKEN | INVALID_TOKEN_CODE | ACCOUNT_ALREADY_VERIFIED | USER_ID_NOT_FOUND
  | INVALID_CREDENTIALS | LOGIN_SUCCESS | LOGOUT_SUCCESS | ACCESS_DENIED | NO_TOKEN_FOUND
  | NO_SNIFFING | TOKEN_REFRESHED | USER_NOT_FOUND | TOKEN_EXPIRED | ACCOUNT_NOT_VERIFIED
  | VALIDATION_ERROR | TIMEOUT | PASSWORD_SAME

text \<open>
  What a \<^verbatim>\<open>catch\<close> block receives: a rejected token, a rejected mail promise, Prisma's
  rejection of a \<^verbatim>\<open>delete\<close> or \<^verbatim>\<open>update\<close> whose \<^verbatim>\<open>where\<close> matches no row, or
  bcrypt's rejection of a hash that is not a string.
\<close>

datatype thrown = TokenFailure token_error | MailFailure | RecordNotFound | HashMissing

datatype message =
  Msg EResponseMessage | ENTITY_EXISTS string | Literal string | Issues "issue list"
  | Thrown thrown

datatype payload = EmptyObj | NewUser IUser | UserField IUser | AccessTokenField string

text \<open>
  \<^verbatim>\<open>httpError(next, err, req, status)\<close> and \<^verbatim>\<open>httpResponse(req, res, status, message, data)\<close>;
  the status of \<open>httpError\<close> is \<open>None\<close> where the call passes none.
\<close>

datatype reply =
  httpError message "EErrorStatusCode option"
  | httpResponse EResponseStatusCode message payload

datatype cookie_op = cookie string string | clearCookie string

record response =
  reply :: reply
  cookies :: "cookie_op list"

record cookie_jar =
  refreshTokenCookie :: "string option"
  accessTokenCookie :: "string option"

definition failWith :: "message \<Rightarrow> EErrorStatusCode option \<Rightarrow> response" where
  "failWith m st = \<lparr>reply = httpError m st, cookies = []\<rparr>"

definition respond :: "EResponseStatusCode \<Rightarrow> message \<Rightarrow> payload \<Rightarrow> response" where
  "respond st m d = \<lparr>reply = httpResponse st m d, cookies = []\<rparr>"

text \<open>The test \<^verbatim>\<open>if (x)\<close> on a \<^verbatim>\<open>string | undefined\<close>: the empty string is falsy.\<close>

definition truthy :: "string option \<Rightarrow> bool" where
  "truthy c = (case c of None \<Rightarrow> False | Some v \<Rightarrow> v \<noteq> [])"

section \<open>The account store: \<^verbatim>\<open>userAuthDbServices\<close>\<close>

text \<open>
  \<^verbatim>\<open>findUnique\<close> and \<^verbatim>\<open>findFirst\<close> return the first matching row or nothing. The
  projections below are the \<^verbatim>\<open>select\<close> and \<^verbatim>\<open>include\<close> clauses of the queries: a query
  with neither returns every scalar column (the password among them) and no relation; a
  query with \<^verbatim>\<open>include\<close> returns every scalar column and the included relation.
\<close>

definition allScalars :: "User \<Rightarrow> IUser" where
  "allScalars u = \<lparr>userId = u_userId u, name = Some (u_name u), email = u_email u,
     username = u_username u, password = Some (u_password u), accountConfirmation = None\<rparr>"

definition includeConfirmation :: "User \<Rightarrow> IUser" where
  "includeConfirmation u = \<lparr>userId = u_userId u, name = Some (u_name u), email = u_email u,
     username = u_username u, password = Some (u_password u),
     accountConfirmation = u_accountConfirmation u\<rparr>"

definition selectCreated :: "User \<Rightarrow> IUser" where
  "selectCreated u = \<lparr>userId = u_userId u, name = Some (u_name u), email = u_email u,
     username = u_username u, password = None, accountConfirmation = u_accountConfirmation u\<rparr>"

definition selectTokenAndCode :: "User \<Rightarrow> IUser" where
  "selectTokenAndCode u = \<lparr>userId = u_userId u, name = None, email = u_email u,
     username = u_username u, password = None, accountConfirmation = u_accountConfirmation u\<rparr>"

definition findUserByEmail :: "prisma \<Rightarrow> string \<Rightarrow> IUser option" where
  "findUserByEmail db e = map_option allScalars (find (\<lambda>u. u_email u = e) (tbl_user db))"

definition findUserByUsername :: "prisma \<Rightarrow> string \<Rightarrow> IUser option" where
  "findUserByUsername db n =
     map_option allScalars (find (\<lambda>u. u_username u = n) (tbl_user db))"

definition createUser :: "prisma \<Rightarrow> string \<Rightarrow> IUserInterface \<Rightarrow> prisma \<times> IUser" where
  "createUser db uid payload =
     (let row = \<lparr>u_userId = uid, u_name = pl_name payload, u_email = pl_email payload,
                 u_username = pl_username payload, u_password = pl_password payload,
                 u_lastLoginAt = None,
                 u_accountConfirmation = Some (pl_accountConfirmation payload)\<rparr>
      in (db\<lparr>tbl_user := tbl_user db @ [row]\<rparr>, selectCreated row))"

text \<open>
  The filter of \<^verbatim>\<open>findUserByTokenAndCode\<close>, \<^verbatim>\<open>accountConfirmation: {token, code}\<close>. The
  controller hands it \<^verbatim>\<open>req.query.code\<close> as it comes: the code is \<open>None\<close> (undefined)
  when the query string has no \<^verbatim>\<open>code\<close>. Prisma leaves an undefined field out of a
  \<^verbatim>\<open>where\<close>, so without a code the filter is on the token alone.
\<close>

definition matchesTokenAndCode :: "string \<Rightarrow> string option \<Rightarrow> User \<Rightarrow> bool" where
  "matchesTokenAndCode t c u =
     (case u_accountConfirmation u of None \<Rightarrow> False
      | Some ac \<Rightarrow>
          ac_token ac = t \<and> (case c of None \<Rightarrow> True | Some x \<Rightarrow> ac_code ac = x))"

definition findUserByTokenAndCode :: "prisma \<Rightarrow> string \<Rightarrow> string option \<Rightarrow> IUser option" where
  "findUserByTokenAndCode db t c =
     map_option selectTokenAndCode (find (matchesTokenAndCode t c) (tbl_user db))"

text \<open>
  \<^verbatim>\<open>prisma.user.update\<close> with \<^verbatim>\<open>where: {userId}\<close>: the key is unique, the row that has it
  is rewritten, and the call rejects (\<open>None\<close>) when there is no such row, or, for the
  nested update of \<^verbatim>\<open>confirmAccount\<close>, when the row has no confirmation record.
\<close>

definition updateUserWhere :: "string \<Rightarrow> (User \<Rightarrow> User) \<Rightarrow> prisma \<Rightarrow> prisma" where
  "updateUserWhere uid f db =
     db\<lparr>tbl_user := map (\<lambda>u. if u_userId u = uid then f u else u) (tbl_user db)\<rparr>"

definition confirmRow :: "int \<Rightarrow> User \<Rightarrow> User" where
  "confirmRow t u =
     u\<lparr>u_accountConfirmation :=
         map_option (\<lambda>ac. ac\<lparr>ac_isVerified := True, ac_timestamp := Some t\<rparr>)
           (u_accountConfirmation u)\<rparr>"

definition confirmAccount :: "prisma \<Rightarrow> string \<Rightarrow> int \<Rightarrow> (prisma \<times> IUser) option" where
  "confirmAccount db uid t =
     (case find (\<lambda>u. u_userId u = uid) (tbl_user db) of
        None \<Rightarrow> None
      | Some u \<Rightarrow>
          if u_accountConfirmation u = None then None
          else Some (updateUserWhere uid (confirmRow t) db, includeConfirmation (confirmRow t u)))"

definition isVerifiedRow :: "User \<Rightarrow> bool" where
  "isVerifiedRow u =
     (case u_accountConfirmation u of None \<Rightarrow> False | Some ac \<Rightarrow> ac_isVerified ac)"

definition findUserByEmailOrUsername :: "prisma \<Rightarrow> string \<Rightarrow> IUser option" where
  "findUserByEmailOrUsername db k =
     map_option allScalars
       (find (\<lambda>u. (u_email u = k \<or> u_username u = k) \<and> isVerifiedRow u) (tbl_user db))"

definition updateUserLastLogin :: "prisma \<Rightarrow> string \<Rightarrow> int \<Rightarrow> prisma option" where
  "updateUserLastLogin db uid t =
     (if find (\<lambda>u. u_userId u = uid) (tbl_user db) = None then None
      else Some (updateUserWhere uid (\<lambda>u. u\<lparr>u_lastLoginAt := Some t\<rparr>) db))"

text \<open>\<^verbatim>\<open>upsert\<close> on the unique key \<^verbatim>\<open>userId\<close>: rewrite the row that has it, else append one.\<close>

definition updateRefreshToken :: "prisma \<Rightarrow> string \<Rightarrow> string \<Rightarrow> int \<Rightarrow> prisma" where
  "updateRefreshToken db uid tok t =
     (if find (\<lambda>r. rt_userId r = uid) (tbl_refreshToken db) = None
      then db\<lparr>tbl_refreshToken :=
                tbl_refreshToken db @ [\<lparr>rt_userId = uid, rt_token = tok, rt_updatedAt = None\<rparr>]\<rparr>
      else db\<lparr>tbl_refreshToken :=
                map (\<lambda>r. if rt_userId r = uid then r\<lparr>rt_token := tok, rt_updatedAt := Some t\<rparr>
                          else r) (tbl_refreshToken db)\<rparr>)"

definition selectById :: "User \<Rightarrow> IUser" where
  "selectById u = \<lparr>userId = u_userId u, name = Some (u_name u), email = u_email u,
     username = u_username u, password = None, accountConfirmation = u_accountConfirmation u\<rparr>"

definition findUserById :: "prisma \<Rightarrow> string \<Rightarrow> IUser option" where
  "findUserById db uid = map_option selectById (find (\<lambda>u. u_userId u = uid) (tbl_user db))"

text \<open>\<^verbatim>\<open>prisma.refreshToken.delete\<close> rejects (\<open>None\<close>) when no row has the key.\<close>

definition deleteRefreshToken :: "prisma \<Rightarrow> string \<Rightarrow> prisma option" where
  "deleteRefreshToken db uid =
     (if find (\<lambda>r. rt_userId r = uid) (tbl_refreshToken db) = None then None
      else Some (db\<lparr>tbl_refreshToken :=
                     filter (\<lambda>r. rt_userId r \<noteq> uid) (tbl_refreshToken db)\<rparr>))"

definition getRefreshToken :: "prisma \<Rightarrow> string \<Rightarrow> RefreshToken option" where
  "getRefreshToken db uid = find (\<lambda>r. rt_userId r = uid) (tbl_refreshToken db)"

definition findUserByResetToken :: "prisma \<Rightarrow> string \<Rightarrow> PasswordRecovery option" where
  "findUserByResetToken db tok = find (\<lambda>r. pr_token r = Some tok) (tbl_passwordRecovery db)"

definition saveResetPasswordCode :: "prisma \<Rightarrow> string \<Rightarrow> string \<Rightarrow> int \<Rightarrow> prisma" where
  "saveResetPasswordCode db uid tok date =
     (if find (\<lambda>r. pr_userId r = uid) (tbl_passwordRecovery db) = None
      then db\<lparr>tbl_passwordRecovery :=
                tbl_passwordRecovery db @
                  [\<lparr>pr_userId = uid, pr_token = Some tok, pr_expiry = Some date,
                    pr_lastResetAt = None\<rparr>]\<rparr>
      else db\<lparr>tbl_passwordRecovery :=
                map (\<lambda>r. if pr_userId r = uid
                          then r\<lparr>pr_token := Some tok, pr_expiry := Some date\<rparr> else r)
                  (tbl_passwordRecovery db)\<rparr>)"

definition updateUserPasswordbyId :: "prisma \<Rightarrow> string \<Rightarrow> string \<Rightarrow> prisma option" where
  "updateUserPasswordbyId db uid pw =
     (if find (\<lambda>u. u_userId u = uid) (tbl_user db) = None then None
      else Some (updateUserWhere uid (\<lambda>u. u\<lparr>u_password := pw\<rparr>) db))"

text \<open>
  \<^verbatim>\<open>getExpiryTime\<close> orders by \<^verbatim>\<open>recoverId\<close> descending: the row of that user created
  last, the first match from the end of the table. The outer \<open>option\<close> is the row, the
  inner one its nullable \<^verbatim>\<open>expiry\<close> column.
\<close>

definition getExpiryTime :: "prisma \<Rightarrow> string \<Rightarrow> int option option" where
  "getExpiryTime db uid =
     map_option pr_expiry (find (\<lambda>r. pr_userId r = uid) (rev (tbl_passwordRecovery db)))"

definition getPasswordbyUserId :: "prisma \<Rightarrow> string \<Rightarrow> string option" where
  "getPasswordbyUserId db uid =
     map_option u_password (find (\<lambda>u. u_userId u = uid) (tbl_user db))"

definition clearResetTokenAndExpiry :: "prisma \<Rightarrow> string \<Rightarrow> prisma option" where
  "clearResetTokenAndExpiry db uid =
     (if find (\<lambda>r. pr_userId r = uid) (tbl_passwordRecovery db) = None then None
      else Some (db\<lparr>tbl_passwordRecovery :=
                     map (\<lambda>r. if pr_userId r = uid then r\<lparr>pr_token := None, pr_expiry := None\<rparr>
                               else r) (tbl_passwordRecovery db)\<rparr>))"

section \<open>Request validation: \<^verbatim>\<open>types/userTypes\<close>\<close>

text \<open>
  A body field is \<open>None\<close> when it is missing or is not a string. \<^verbatim>\<open>z.string().min(lo).max(hi)\<close>
  reports a missing field, or each bound the string breaks; \<^verbatim>\<open>safeParse\<close> collects the
  issues of all fields in the order of the schema and succeeds when there are none.
\<close>

definition zString :: "string \<Rightarrow> string option \<Rightarrow> issue list" where
  "zString field v = (case v of None \<Rightarrow> [Required field] | Some x \<Rightarrow> [])"

definition zMinMax :: "string \<Rightarrow> nat \<Rightarrow> nat \<Rightarrow> string option \<Rightarrow> issue list" where
  "zMinMax field lo hi v =
     (case v of None \<Rightarrow> [Required field]
      | Some x \<Rightarrow> (if length x < lo then [TooSmall field lo] else []) @
                  (if hi < length x then [TooBig field hi] else []))"

definition zEmail :: "(string \<Rightarrow> bool) \<Rightarrow> string \<Rightarrow> string option \<Rightarrow> issue list" where
  "zEmail valid field v =
     (case v of None \<Rightarrow> [Required field]
      | Some x \<Rightarrow> if valid x then [] else [InvalidEmail field])"

definition registerUserSchema ::
  "EUserTypeConstants \<Rightarrow> (string \<Rightarrow> bool) \<Rightarrow> register_body \<Rightarrow> issue list + RegisterUserType"
where
  "registerUserSchema k valid body =
     (let issues =
            zMinMax ''name'' (MIN_NAME_LENGTH k) (MAX_NAME_LENGTH k) (rb_name body) @
            zEmail valid ''email'' (rb_email body) @
            zMinMax ''username'' (MIN_USERNAME_LENGTH k) (MAX_USERNAME_LENGTH k)
              (rb_username body) @
            zMinMax ''password'' (MIN_PASSWORD_LENGTH k) (MAX_PASSWORD_LENGTH k)
              (rb_password body)
      in case (rb_name body, rb_email body, rb_username body, rb_password body) of
           (Some n, Some e, Some u, Some p) \<Rightarrow>
             if issues = [] then
               Inr \<lparr>reg_name = n, reg_email = e, reg_username = u, reg_password = p\<rparr>
             else Inl issues
         | _ \<Rightarrow> Inl issues)"

definition loginUserSchema :: "EUserTypeConstants \<Rightarrow> login_body \<Rightarrow> issue list + LoginUserType"
where
  "loginUserSchema k body =
     (let issues =
            zString ''email'' (lb_email body) @
            zMinMax ''password'' (MIN_PASSWORD_LENGTH k) (MAX_PASSWORD_LENGTH k)
              (lb_password body)
      in case (lb_email body, lb_password body) of
           (Some e, Some p) \<Rightarrow>
             if issues = [] then Inr \<lparr>login_email = e, login_password = p\<rparr> else Inl issues
         | _ \<Rightarrow> Inl issues)"

section \<open>Time\<close>

text \<open>
  \<^verbatim>\<open>a.diff(b, "minutes")\<close> of moment: the difference in milliseconds over 60000, rounded
  towards zero.
\<close>

definition diffMinutes :: "int \<Rightarrow> int \<Rightarrow> int" where
  "diffMinutes a b =
     (let d = a - b in if d < 0 then - ((- d) div 60000) else d div 60000)"

text \<open>
  Modelled from the spec: \<^verbatim>\<open>quicker.generateExpirationTime\<close> is not among the sources; the
  specification gives the expiry of a reset code as now + 15 minutes, so
  \<open>generateExpirationTime t m\<close> is the instant \<open>m\<close> minutes after \<open>t\<close>.
\<close>

definition generateExpirationTime :: "int \<Rightarrow> int \<Rightarrow> int" where
  "generateExpirationTime t m = t + m * 60000"

section \<open>The controller\<close>

definition register :: "env \<Rightarrow> prisma \<Rightarrow> register_body \<Rightarrow> prisma \<times> response" where
  "register ev db body =
     (case registerUserSchema (constants ev) (isEmail ev) body of
        Inl issues \<Rightarrow> (db, failWith (Issues issues) (Some BAD_REQUEST))
      | Inr parsed \<Rightarrow>
          if findUserByEmail db (reg_email parsed) \<noteq> None
          then (db, failWith (ENTITY_EXISTS ''User'') (Some BAD_REQUEST))
          else if findUserByUsername db (reg_username parsed) \<noteq> None
          then (db, failWith (Msg USERNAME_TAKEN) (Some BAD_REQUEST))
          else
            let hashedPassword = hashPassword (quick ev) (reg_password parsed);
                tok = generateRandomToken (quick ev);
                otp = generateOTP (quick ev);
                payload = \<lparr>pl_name = reg_name parsed, pl_username = reg_username parsed,
                           pl_email = reg_email parsed, pl_password = hashedPassword,
                           pl_accountConfirmation =
                             \<lparr>ac_token = tok, ac_code = otp, ac_timestamp = None,
                              ac_isVerified = False\<rparr>\<rparr>
            in if \<not> sendVerificationEmail (mail ev) (reg_email parsed) (reg_name parsed) tok otp
               then (db, failWith (Thrown MailFailure) None)
               else (case createUser db (newUserId ev) payload of
                       (db', newUser) \<Rightarrow>
                         (db', respond CREATED (Literal ''User registered successfully'')
                                 (NewUser newUser))))"

definition isVerified :: "IUser \<Rightarrow> bool" where
  "isVerified user =
     (case accountConfirmation user of None \<Rightarrow> False | Some ac \<Rightarrow> ac_isVerified ac)"

text \<open>
  \<^verbatim>\<open>confirmation\<close> takes the token from the path and the code from the query string,
  through the cast to \<^verbatim>\<open>IConfirmRequest\<close> and with no check: the token is always a
  string, the code is \<open>None\<close> when the request has none.
\<close>

definition confirmation ::
  "env \<Rightarrow> prisma \<Rightarrow> string \<Rightarrow> string option \<Rightarrow> prisma \<times> response"
where
  "confirmation ev db tok otp =
     (case findUserByTokenAndCode db tok otp of
        None \<Rightarrow> (db, failWith (Msg INVALID_TOKEN_CODE) (Some UNAUTHORIZED))
      | Some user \<Rightarrow>
          if isVerified user
          then (db, failWith (Msg ACCOUNT_ALREADY_VERIFIED) (Some BAD_REQUEST))
          else if userId user = []
          then (db, failWith (Msg USER_ID_NOT_FOUND) (Some INTERNAL_SERVER_ERROR))
          else (case confirmAccount db (userId user) (now ev) of
                  None \<Rightarrow> (db, failWith (Thrown RecordNotFound) None)
                | Some (db', updatedUser) \<Rightarrow>
                    if \<not> accountConfirmedEmail (mail ev) (email updatedUser) (name updatedUser)
                    then (db', failWith (Thrown MailFailure) None)
                    else (db', respond OK (Literal ''Account confirmed successfully'')
                                 (UserField updatedUser))))"

definition login :: "env \<Rightarrow> prisma \<Rightarrow> login_body \<Rightarrow> prisma \<times> response" where
  "login ev db body =
     (case loginUserSchema (constants ev) body of
        Inl issues \<Rightarrow> (db, failWith (Issues issues) (Some BAD_REQUEST))
      | Inr parsed \<Rightarrow>
          (case findUserByEmailOrUsername db (login_email parsed) of
             None \<Rightarrow> (db, failWith (Msg INVALID_CREDENTIALS) (Some UNAUTHORIZED))
           | Some user \<Rightarrow>
               (case password user of
                  None \<Rightarrow> (db, failWith (Thrown HashMissing) None)
                | Some hash \<Rightarrow>
                    if \<not> comparePassword (quick ev) (login_password parsed) hash
                    then (db, failWith (Msg INVALID_CREDENTIALS) (Some UNAUTHORIZED))
                    else
                      let claims = \<lparr>jwt_userId = userId user, jwt_email = email user,
                                    jwt_username = username user\<rparr>;
                          accessToken =
                            generateToken (quick ev) claims (ACCESS_TOKEN_SECRET (config ev))
                              (ACCESS_TOKEN_EXPIRY (config ev));
                          refreshToken =
                            generateToken (quick ev) claims (REFRESH_TOKEN_SECRET (config ev))
                              (REFRESH_TOKEN_EXPIRY (config ev))
                      in (case updateUserLastLogin db (userId user) (now ev) of
                            None \<Rightarrow> (db, failWith (Thrown RecordNotFound) None)
                          | Some db1 \<Rightarrow>
                              (updateRefreshToken db1 (userId user) refreshToken (now ev),
                               \<lparr>reply = httpResponse OK (Msg LOGIN_SUCCESS)
                                   (UserField \<lparr>userId = userId user, name = name user,
                                      email = email user, username = username user,
                                      password = None, accountConfirmation = None\<rparr>),
                                cookies = [cookie ''accessToken'' accessToken,
                                           cookie ''refreshToken'' refreshToken]\<rparr>)))))"

definition clearAuthCookies :: "cookie_op list" where
  "clearAuthCookies = [clearCookie ''accessToken'', clearCookie ''refreshToken'']"

text \<open>
  \<^verbatim>\<open>logout\<close> runs behind the authentication middleware, which supplies
  \<^verbatim>\<open>authenticatedUser\<close>. Its \<^verbatim>\<open>catch\<close> passes the status 500.
\<close>

definition logout :: "prisma \<Rightarrow> IUser \<Rightarrow> cookie_jar \<Rightarrow> prisma \<times> response" where
  "logout db authenticatedUser jar =
     (if truthy (refreshTokenCookie jar)
      then (case deleteRefreshToken db (userId authenticatedUser) of
              None \<Rightarrow> (db, failWith (Thrown RecordNotFound) (Some INTERNAL_SERVER_ERROR))
            | Some db' \<Rightarrow>
                (db', \<lparr>reply = httpResponse OK (Msg LOGOUT_SUCCESS) EmptyObj,
                       cookies = clearAuthCookies\<rparr>))
      else (db, \<lparr>reply = httpResponse OK (Msg LOGOUT_SUCCESS) EmptyObj,
                 cookies = clearAuthCookies\<rparr>))"

definition refreshToken :: "env \<Rightarrow> prisma \<Rightarrow> cookie_jar \<Rightarrow> prisma \<times> response" where
  "refreshToken ev db jar =
     (if truthy (accessTokenCookie jar)
      then (db, failWith (Msg ACCESS_DENIED) (Some FORBIDDEN))
      else
        (case refreshTokenCookie jar of
           None \<Rightarrow> (db, failWith (Msg NO_TOKEN_FOUND) (Some UNAUTHORIZED))
         | Some presented \<Rightarrow>
             if presented = []
             then (db, failWith (Msg NO_TOKEN_FOUND) (Some UNAUTHORIZED))
             else
               (case verifyToken (quick ev) presented (REFRESH_TOKEN_SECRET (config ev)) of
                  Inl e \<Rightarrow> (db, failWith (Thrown (TokenFailure e)) None)
                | Inr claims \<Rightarrow>
                    (case getRefreshToken db (jwt_userId claims) of
                       None \<Rightarrow> (db, failWith (Msg NO_SNIFFING) (Some UNAUTHORIZED))
                     | Some dbRefreshToken \<Rightarrow>
                         if rt_token dbRefreshToken \<noteq> presented
                         then (db, failWith (Msg NO_SNIFFING) (Some UNAUTHORIZED))
                         else
                           let newAccessToken =
                                 generateToken (quick ev)
                                   \<lparr>jwt_userId = jwt_userId claims, jwt_email = jwt_email claims,
                                    jwt_username = jwt_username claims\<rparr>
                                   (ACCESS_TOKEN_SECRET (config ev))
                                   (ACCESS_TOKEN_EXPIRY (config ev))
                           in (db, \<lparr>reply = httpResponse OK (Msg TOKEN_REFRESHED)
                                       (AccessTokenField (''Bearer '' @ newAccessToken)),
                                    cookies = [cookie ''accessToken'' newAccessToken]\<rparr>)))))"

definition forgotPassword :: "env \<Rightarrow> prisma \<Rightarrow> forgot_body \<Rightarrow> prisma \<times> response" where
  "forgotPassword ev db body =
     (case forgotPasswordSchema ev body of
        Inl issues \<Rightarrow> (db, failWith (Issues issues) (Some BAD_REQUEST))
      | Inr key \<Rightarrow>
          (case findUserByEmailOrUsername db key of
             None \<Rightarrow> (db, failWith (Msg USER_NOT_FOUND) (Some UNAUTHORIZED))
           | Some user \<Rightarrow>
               let tok = generateRandomToken (quick ev);
                   expiryTime = generateExpirationTime (now ev) 15;
                   db' = saveResetPasswordCode db (userId user) tok expiryTime
               in if \<not> sendPasswordResetLink (mail ev) (email user) (name user) tok
                  then (db', failWith (Thrown MailFailure) None)
                  else (db', respond OK (Literal ''Forgot password'') EmptyObj)))"

text \<open>
  \<^verbatim>\<open>resetPassword\<close> is written in two parts. \<open>storeNewPassword\<close> is the part of its body
  that follows the expiry check: fetch the current hash, refuse a password that matches
  it, store the new hash, clear the reset token and expiry, send the notice.
\<close>

definition storeNewPassword :: "env \<Rightarrow> prisma \<Rightarrow> IUser \<Rightarrow> ResetPasswordType \<Rightarrow> prisma \<times> response"
where
  "storeNewPassword ev db user parsed =
     (case getPasswordbyUserId db (userId user) of
        None \<Rightarrow> (db, failWith (Msg VALIDATION_ERROR) (Some FORBIDDEN))
      | Some currentPassword \<Rightarrow>
          if comparePassword (quick ev) (newPassword parsed) currentPassword
          then (db, failWith (Msg PASSWORD_SAME) (Some CONFLICT))
          else
            (case updateUserPasswordbyId db (userId user)
                    (hashPassword (quick ev) (newPassword parsed)) of
               None \<Rightarrow> (db, failWith (Thrown RecordNotFound) None)
             | Some db1 \<Rightarrow>
                 (case clearResetTokenAndExpiry db1 (userId user) of
                    None \<Rightarrow> (db1, failWith (Thrown RecordNotFound) None)
                  | Some db2 \<Rightarrow>
                      if \<not> sendPasswordChangeEmail (mail ev) (email user) (name user)
                      then (db2, failWith (Thrown MailFailure) None)
                      else (db2, respond OK (Literal ''Password reset successfully'')
                                   EmptyObj))))"

definition resetPassword :: "env \<Rightarrow> prisma \<Rightarrow> string \<Rightarrow> reset_body \<Rightarrow> prisma \<times> response" where
  "resetPassword ev db tok body =
     (case resetPasswordSchema ev body of
        Inl issues \<Rightarrow> (db, failWith (Issues issues) (Some BAD_REQUEST))
      | Inr parsed \<Rightarrow>
      (case findUserByResetToken db tok of
         None \<Rightarrow> (db, failWith (Msg TOKEN_EXPIRED) (Some UNAUTHORIZED))
       | Some tokenData \<Rightarrow>
       (case findUserById db (pr_userId tokenData) of
          None \<Rightarrow> (db, failWith (Msg USER_ID_NOT_FOUND) (Some NOT_FOUND))
        | Some user \<Rightarrow>
          if \<not> isVerified user
          then (db, failWith (Msg ACCOUNT_NOT_VERIFIED) (Some FORBIDDEN))
          else
          (case getExpiryTime db (userId user) of
             None \<Rightarrow> (db, failWith (Msg VALIDATION_ERROR) (Some FORBIDDEN))
           | Some None \<Rightarrow> (db, failWith (Msg VALIDATION_ERROR) (Some FORBIDDEN))
           | Some (Some expiry) \<Rightarrow>
             if 15 \<le> diffMinutes (now ev) expiry
             then (db, failWith (Msg TIMEOUT) (Some FORBIDDEN))
             else storeNewPassword ev db user parsed))))"

section \<open>A concrete deployment\<close>

text \<open>
  One environment and one store on which the theorems below are exercised: Ana is a
  confirmed user with a live session and a pending reset code, Bob has registered and
  not yet confirmed.
\<close>

definition quick0 :: quicker where
  "quick0 = \<lparr>hashPassword = (\<lambda>p. ''#'' @ p),
     comparePassword = (\<lambda>p h. h = ''#'' @ p),
     generateToken = (\<lambda>c secret ttl. secret @ ''.'' @ jwt_userId c),
     verifyToken = (\<lambda>t secret.
        if t = secret @ ''.u1''
        then Inr \<lparr>jwt_userId = ''u1'', jwt_email = ''ana@x.com'', jwt_username = ''ana1''\<rparr>
        else Inl TokenInvalid),
     generateRandomToken = ''tok9'',
     generateOTP = ''900900''\<rparr>"

definition mail0 :: sendEmailService where
  "mail0 = \<lparr>sendVerificationEmail = (\<lambda>e n t c. True),
     accountConfirmedEmail = (\<lambda>e n. True),
     sendPasswordResetLink = (\<lambda>e n t. True),
     sendPasswordChangeEmail = (\<lambda>e n. True)\<rparr>"

definition ev0 :: env where
  "ev0 = \<lparr>quick = quick0, mail = mail0,
     config = \<lparr>ACCESS_TOKEN_SECRET = ''A'', REFRESH_TOKEN_SECRET = ''R'',
                ACCESS_TOKEN_EXPIRY = ''3600000'', REFRESH_TOKEN_EXPIRY = ''604800000''\<rparr>,
     constants = \<lparr>MIN_NAME_LENGTH = 2, MAX_NAME_LENGTH = 72, MIN_USERNAME_LENGTH = 3,
                   MAX_USERNAME_LENGTH = 20, MIN_PASSWORD_LENGTH = 8,
                   MAX_PASSWORD_LENGTH = 24\<rparr>,
     isEmail = (\<lambda>e. CHR ''@'' \<in> set e),
     forgotPasswordSchema =
       (\<lambda>b. case fb_email b of None \<Rightarrow> Inl [Required ''email''] | Some e \<Rightarrow> Inr e),
     resetPasswordSchema =
       (\<lambda>b. case (sb_newPassword b, sb_confirmNewPassword b) of
               (Some n, Some c) \<Rightarrow>
                 if n = c then Inr \<lparr>newPassword = n, confirmNewPassword = c\<rparr>
                 else Inl [Mismatch ''confirmNewPassword'']
             | _ \<Rightarrow> Inl [Required ''newPassword'']),
     now = 5000000,
     newUserId = ''u9''\<rparr>"

definition ana :: User where
  "ana = \<lparr>u_userId = ''u1'', u_name = ''Ana'', u_email = ''ana@x.com'', u_username = ''ana1'',
     u_password = ''#Secret123!'', u_lastLoginAt = None,
     u_accountConfirmation =
       Some \<lparr>ac_token = ''t1'', ac_code = ''111111'', ac_timestamp = Some 1000,
             ac_isVerified = True\<rparr>\<rparr>"

definition bob :: User where
  "bob = \<lparr>u_userId = ''u2'', u_name = ''Bob'', u_email = ''bob@x.com'', u_username = ''bob2'',
     u_password = ''#Passw0rd!'', u_lastLoginAt = None,
     u_accountConfirmation =
       Some \<lparr>ac_token = ''t2'', ac_code = ''222222'', ac_timestamp = None,
             ac_isVerified = False\<rparr>\<rparr>"

definition db0 :: prisma where
  "db0 = \<lparr>tbl_user = [ana, bob],
     tbl_refreshToken = [\<lparr>rt_userId = ''u1'', rt_token = ''R.u1'', rt_updatedAt = None\<rparr>],
     tbl_passwordRecovery =
       [\<lparr>pr_userId = ''u1'', pr_token = Some ''reset1'', pr_expiry = Some 4000000,
         pr_lastResetAt = None\<rparr>]\<rparr>"

text \<open>The refresh token that \<^verbatim>\<open>login\<close> signs for a user and sends as a cookie.\<close>

definition issuedRefreshToken :: "env \<Rightarrow> IUser \<Rightarrow> string" where
  "issuedRefreshToken ev u =
     generateToken (quick ev)
       \<lparr>jwt_userId = userId u, jwt_email = email u, jwt_username = username u\<rparr>
       (REFRESH_TOKEN_SECRET (config ev)) (REFRESH_TOKEN_EXPIRY (config ev))"

definition cy :: register_body where
  "cy = \<lparr>rb_name = Some ''Cy'', rb_email = Some ''cy@x.com'', rb_username = Some ''cy3'',
          rb_password = Some ''Secret123!''\<rparr>"

definition newPasswords :: "string \<Rightarrow> string \<Rightarrow> reset_body" where
  "newPasswords p c = \<lparr>sb_newPassword = Some p, sb_confirmNewPassword = Some c\<rparr>"

text \<open>Bob, unconfirmed, with a reset code in the table.\<close>

definition db0_bob :: prisma where
  "db0_bob = db0\<lparr>tbl_passwordRecovery :=
               [\<lparr>pr_userId = ''u2'', pr_token = Some ''reset2'', pr_expiry = Some 4000000,
                 pr_lastResetAt = None\<rparr>]\<rparr>"

definition creds :: "string \<Rightarrow> string \<Rightarrow> login_body" where
  "creds k p = \<lparr>lb_email = Some k, lb_password = Some p\<rparr>"

section \<open>Refresh\<close>

text \<open>
  C7. A refresh request that carries an access token (the cookie \<^verbatim>\<open>accessToken\<close> with a
  non-empty value, which is the test \<^verbatim>\<open>if (accessToken)\<close> of the controller; an empty
  value counts as no token) fails with \<open>ACCESS_DENIED\<close>, status 403, leaves the store as it
  is and sets no cookie. The answer is the same whatever the token verifier and the store
  are, so neither has been consulted. A request with neither an access token nor a refresh
  token fails with \<open>NO_TOKEN_FOUND\<close>, status 401.
\<close>

theorem refreshToken_guards:
  "(truthy (accessTokenCookie jar) \<longrightarrow>
      refreshToken ev db jar = (db, failWith (Msg ACCESS_DENIED) (Some FORBIDDEN)) \<and>
      snd (refreshToken ev' db' jar) = snd (refreshToken ev db jar)) \<and>
   (\<not> truthy (accessTokenCookie jar) \<and> \<not> truthy (refreshTokenCookie jar) \<longrightarrow>
      refreshToken ev db jar = (db, failWith (Msg NO_TOKEN_FOUND) (Some UNAUTHORIZED)))"
  by (simp add: refreshToken_def truthy_def split: option.splits)

theorem refreshToken_guards_witness:
  "truthy (accessTokenCookie
            \<lparr>refreshTokenCookie = Some ''R.u1'', accessTokenCookie = Some ''A.u1''\<rparr>) \<and>
   refreshToken ev0 db0 \<lparr>refreshTokenCookie = Some ''R.u1'', accessTokenCookie = Some ''A.u1''\<rparr>
     = (db0, failWith (Msg ACCESS_DENIED) (Some FORBIDDEN)) \<and>
   \<not> truthy (accessTokenCookie \<lparr>refreshTokenCookie = None, accessTokenCookie = None\<rparr>) \<and>
   \<not> truthy (refreshTokenCookie \<lparr>refreshTokenCookie = None, accessTokenCookie = None\<rparr>) \<and>
   refreshToken ev0 db0 \<lparr>refreshTokenCookie = None, accessTokenCookie = None\<rparr>
     = (db0, failWith (Msg NO_TOKEN_FOUND) (Some UNAUTHORIZED))"
  using refreshToken_guards
          [of "\<lparr>refreshTokenCookie = Some ''R.u1'', accessTokenCookie = Some ''A.u1''\<rparr>"
              ev0 db0 ev0 db0]
        refreshToken_guards
          [of "\<lparr>refreshTokenCookie = None, accessTokenCookie = None\<rparr>" ev0 db0 ev0 db0]
  by (simp add: truthy_def)

text \<open>
  C1, as the claim has it, fails: a request whose refresh token verifies and whose subject
  has no stored record, but which also carries an access token, is answered
  \<open>ACCESS_DENIED\<close> and not \<open>NO_SNIFFING\<close> (the replay error).
\<close>

theorem refreshToken_replay_counterexample:
  "verifyToken (quick ev0) ''R.u1'' (REFRESH_TOKEN_SECRET (config ev0))
     = Inr \<lparr>jwt_userId = ''u1'', jwt_email = ''ana@x.com'', jwt_username = ''ana1''\<rparr> \<and>
   getRefreshToken (db0\<lparr>tbl_refreshToken := []\<rparr>) ''u1'' = None \<and>
   refreshToken ev0 (db0\<lparr>tbl_refreshToken := []\<rparr>)
       \<lparr>refreshTokenCookie = Some ''R.u1'', accessTokenCookie = Some ''A.u1''\<rparr>
     = (db0\<lparr>tbl_refreshToken := []\<rparr>, failWith (Msg ACCESS_DENIED) (Some FORBIDDEN)) \<and>
   failWith (Msg ACCESS_DENIED) (Some FORBIDDEN) \<noteq> failWith (Msg NO_SNIFFING) (Some UNAUTHORIZED)"
  by (simp add: refreshToken_def truthy_def ev0_def quick0_def getRefreshToken_def db0_def
        failWith_def)

text \<open>
  C1, amended. A refresh request that carries no access token and a non-empty refresh token
  which verifies under the refresh secret fails with \<open>NO_SNIFFING\<close>, status 401, whenever the
  refresh-token row stored for the token's subject is absent or holds another token
  string. The store is unchanged and no cookie is set, so no access token is issued.
\<close>

theorem refreshToken_replay:
  assumes "\<not> truthy (accessTokenCookie jar)"
    and "refreshTokenCookie jar = Some presented" and "presented \<noteq> []"
    and "verifyToken (quick ev) presented (REFRESH_TOKEN_SECRET (config ev)) = Inr claims"
    and "\<forall>r. getRefreshToken db (jwt_userId claims) = Some r \<longrightarrow> rt_token r \<noteq> presented"
  shows "refreshToken ev db jar = (db, failWith (Msg NO_SNIFFING) (Some UNAUTHORIZED))"
  using assms by (simp add: refreshToken_def split: option.splits)

theorem refreshToken_replay_witness:
  "\<not> truthy (accessTokenCookie \<lparr>refreshTokenCookie = Some ''R.u1'', accessTokenCookie = None\<rparr>) \<and>
   verifyToken (quick ev0) ''R.u1'' (REFRESH_TOKEN_SECRET (config ev0))
     = Inr \<lparr>jwt_userId = ''u1'', jwt_email = ''ana@x.com'', jwt_username = ''ana1''\<rparr> \<and>
   getRefreshToken
     (db0\<lparr>tbl_refreshToken := [\<lparr>rt_userId = ''u1'', rt_token = ''R.u1.later'',
                                 rt_updatedAt = Some 4500000\<rparr>]\<rparr>) ''u1''
     = Some \<lparr>rt_userId = ''u1'', rt_token = ''R.u1.later'', rt_updatedAt = Some 4500000\<rparr> \<and>
   refreshToken ev0
     (db0\<lparr>tbl_refreshToken := [\<lparr>rt_userId = ''u1'', rt_token = ''R.u1.later'',
                                 rt_updatedAt = Some 4500000\<rparr>]\<rparr>)
     \<lparr>refreshTokenCookie = Some ''R.u1'', accessTokenCookie = None\<rparr>
     = (db0\<lparr>tbl_refreshToken := [\<lparr>rt_userId = ''u1'', rt_token = ''R.u1.later'',
                                    rt_updatedAt = Some 4500000\<rparr>]\<rparr>,
        failWith (Msg NO_SNIFFING) (Some UNAUTHORIZED))"
  using refreshToken_replay
          [of "\<lparr>refreshTokenCookie = Some ''R.u1'', accessTokenCookie = None\<rparr>" "''R.u1''" ev0
              "\<lparr>jwt_userId = ''u1'', jwt_email = ''ana@x.com'', jwt_username = ''ana1''\<rparr>"
              "db0\<lparr>tbl_refreshToken := [\<lparr>rt_userId = ''u1'', rt_token = ''R.u1.later'',
                                          rt_updatedAt = Some 4500000\<rparr>]\<rparr>"]
  by (simp add: truthy_def ev0_def quick0_def getRefreshToken_def)

section \<open>Logout\<close>

lemma find_filter_neg: "find P (filter (\<lambda>x. \<not> P x) xs) = None"
  by (induction xs) auto

text \<open>
  C6, as the claim has it, fails: the controller deletes the stored row only when the
  request carries a \<^verbatim>\<open>refreshToken\<close> cookie. An authenticated logout without that cookie
  leaves Ana's stored refresh token in place.
\<close>

theorem logout_counterexample:
  "getRefreshToken db0 ''u1''
     = Some \<lparr>rt_userId = ''u1'', rt_token = ''R.u1'', rt_updatedAt = None\<rparr> \<and>
   getRefreshToken
     (fst (logout db0 (selectById ana)
             \<lparr>refreshTokenCookie = None, accessTokenCookie = Some ''A.u1''\<rparr>)) ''u1''
     = Some \<lparr>rt_userId = ''u1'', rt_token = ''R.u1'', rt_updatedAt = None\<rparr>"
  by (simp add: logout_def truthy_def getRefreshToken_def db0_def)

text \<open>
  C6, amended. A logout whose request carries a non-empty \<^verbatim>\<open>refreshToken\<close> cookie, for a
  user who has a stored refresh-token row, deletes that row (and no other), answers
  \<open>LOGOUT_SUCCESS\<close> and clears both cookies. A logout whose request carries no such cookie
  leaves the store as it is, answers \<open>LOGOUT_SUCCESS\<close> and clears both cookies.
\<close>

theorem logout_by_cookie:
  "(truthy (refreshTokenCookie jar) \<and> getRefreshToken db (userId authenticatedUser) \<noteq> None \<longrightarrow>
      logout db authenticatedUser jar =
        (db\<lparr>tbl_refreshToken :=
              filter (\<lambda>r. rt_userId r \<noteq> userId authenticatedUser) (tbl_refreshToken db)\<rparr>,
         \<lparr>reply = httpResponse OK (Msg LOGOUT_SUCCESS) EmptyObj,
          cookies = [clearCookie ''accessToken'', clearCookie ''refreshToken'']\<rparr>) \<and>
      getRefreshToken (fst (logout db authenticatedUser jar)) (userId authenticatedUser) = None) \<and>
   (\<not> truthy (refreshTokenCookie jar) \<longrightarrow>
      logout db authenticatedUser jar =
        (db, \<lparr>reply = httpResponse OK (Msg LOGOUT_SUCCESS) EmptyObj,
              cookies = [clearCookie ''accessToken'', clearCookie ''refreshToken'']\<rparr>))"
  using find_filter_neg [of "\<lambda>r. rt_userId r = userId authenticatedUser" "tbl_refreshToken db"]
  by (simp add: logout_def deleteRefreshToken_def getRefreshToken_def clearAuthCookies_def)

theorem logout_by_cookie_witness:
  "truthy (refreshTokenCookie
            \<lparr>refreshTokenCookie = Some ''R.u1'', accessTokenCookie = Some ''A.u1''\<rparr>) \<and>
   getRefreshToken db0 (userId (selectById ana)) \<noteq> None \<and>
   getRefreshToken
     (fst (logout db0 (selectById ana)
             \<lparr>refreshTokenCookie = Some ''R.u1'', accessTokenCookie = Some ''A.u1''\<rparr>))
     (userId (selectById ana)) = None \<and>
   \<not> truthy (refreshTokenCookie \<lparr>refreshTokenCookie = None, accessTokenCookie = Some ''A.u1''\<rparr>) \<and>
   logout db0 (selectById ana) \<lparr>refreshTokenCookie = None, accessTokenCookie = Some ''A.u1''\<rparr> =
     (db0, \<lparr>reply = httpResponse OK (Msg LOGOUT_SUCCESS) EmptyObj,
            cookies = [clearCookie ''accessToken'', clearCookie ''refreshToken'']\<rparr>)"
  using logout_by_cookie
          [of "\<lparr>refreshTokenCookie = Some ''R.u1'', accessTokenCookie = Some ''A.u1''\<rparr>"
              db0 "selectById ana"]
        logout_by_cookie
          [of "\<lparr>refreshTokenCookie = None, accessTokenCookie = Some ''A.u1''\<rparr>"
              db0 "selectById ana"]
  by (simp add: truthy_def getRefreshToken_def db0_def selectById_def ana_def)

text \<open>
  The case the amended statement leaves open: a second logout that still carries the
  cookie finds no row, Prisma's \<^verbatim>\<open>delete\<close> rejects, and the controller answers with
  status 500 without clearing a cookie.
\<close>

lemma logout_twice:
  "logout (db0\<lparr>tbl_refreshToken := []\<rparr>) (selectById ana)
      \<lparr>refreshTokenCookie = Some ''R.u1'', accessTokenCookie = Some ''A.u1''\<rparr>
   = (db0\<lparr>tbl_refreshToken := []\<rparr>, failWith (Thrown RecordNotFound) (Some INTERNAL_SERVER_ERROR))"
  by (simp add: logout_def truthy_def deleteRefreshToken_def db0_def)

section \<open>Registration\<close>

text \<open>
  C3. When the verification mail of a registration is rejected, the store is left as it was
  and the answer is an error: \<^verbatim>\<open>createUser\<close>, which writes the user row together with its
  confirmation record, comes after the awaited mail. Conversely, a registration that has
  changed the store is one whose body passed validation and whose mail was delivered.
\<close>

theorem register_mail_first:
  "(registerUserSchema (constants ev) (isEmail ev) body = Inr parsed \<and>
    \<not> sendVerificationEmail (mail ev) (reg_email parsed) (reg_name parsed)
        (generateRandomToken (quick ev)) (generateOTP (quick ev)) \<longrightarrow>
      fst (register ev db body) = db \<and>
      (\<exists>m st. reply (snd (register ev db body)) = httpError m st)) \<and>
   (fst (register ev db body) \<noteq> db \<longrightarrow>
      (\<exists>p. registerUserSchema (constants ev) (isEmail ev) body = Inr p \<and>
           sendVerificationEmail (mail ev) (reg_email p) (reg_name p)
             (generateRandomToken (quick ev)) (generateOTP (quick ev))))"
  by (auto simp: register_def failWith_def Let_def split: sum.splits)

lemma cy_parsed: "registerUserSchema (constants ev0) (isEmail ev0) cy =
   Inr \<lparr>reg_name = ''Cy'', reg_email = ''cy@x.com'', reg_username = ''cy3'', reg_password = ''Secret123!''\<rparr>"
  by (simp add: registerUserSchema_def cy_def ev0_def zMinMax_def zEmail_def)

lemma cy_parsed': "registerUserSchema (constants (ev0\<lparr>mail := m\<rparr>)) (isEmail (ev0\<lparr>mail := m\<rparr>)) cy =
   Inr \<lparr>reg_name = ''Cy'', reg_email = ''cy@x.com'', reg_username = ''cy3'', reg_password = ''Secret123!''\<rparr>"
  using cy_parsed by simp

theorem register_mail_first_witness:
  "registerUserSchema (constants (ev0\<lparr>mail := mail0\<lparr>sendVerificationEmail := (\<lambda>e n t c. False)\<rparr>\<rparr>))
      (isEmail (ev0\<lparr>mail := mail0\<lparr>sendVerificationEmail := (\<lambda>e n t c. False)\<rparr>\<rparr>)) cy
     = Inr \<lparr>reg_name = ''Cy'', reg_email = ''cy@x.com'', reg_username = ''cy3'',
            reg_password = ''Secret123!''\<rparr> \<and>
   fst (register (ev0\<lparr>mail := mail0\<lparr>sendVerificationEmail := (\<lambda>e n t c. False)\<rparr>\<rparr>) db0 cy) = db0 \<and>
   fst (register ev0 db0 cy) \<noteq> db0 \<and>
   sendVerificationEmail (mail ev0) ''cy@x.com'' ''Cy'' (generateRandomToken (quick ev0))
     (generateOTP (quick ev0))"
proof -
  let ?ev = "ev0\<lparr>mail := mail0\<lparr>sendVerificationEmail := (\<lambda>e n t c. False)\<rparr>\<rparr>"
  have changed: "fst (register ev0 db0 cy) \<noteq> db0"
  proof
    assume "fst (register ev0 db0 cy) = db0"
    then have "length (tbl_user (fst (register ev0 db0 cy))) = length (tbl_user db0)" by simp
    then show False
      by (simp add: register_def registerUserSchema_def cy_def zMinMax_def zEmail_def
            findUserByEmail_def findUserByUsername_def db0_def
            ana_def bob_def createUser_def Let_def ev0_def mail0_def)
  qed
  show ?thesis
    using register_mail_first [of ?ev cy _ db0] register_mail_first [of ev0 cy _ db0] changed
          cy_parsed cy_parsed'
    by (simp add: ev0_def mail0_def)
qed

section \<open>Login\<close>

lemma find_snoc: "find P xs = None \<Longrightarrow> P x \<Longrightarrow> find P (xs @ [x]) = Some x"
  by (induction xs) (auto split: if_splits)

lemma find_map_where:
  "find (\<lambda>r. k r = uid) xs = Some r0 \<Longrightarrow> (\<And>r. k (f r) = k r) \<Longrightarrow>
   find (\<lambda>r. k r = uid) (map (\<lambda>r. if k r = uid then f r else r) xs) = Some (f r0)"
  by (induction xs) (auto split: if_splits)

lemma map_key_where:
  "(\<And>r. k (f r) = k r) \<Longrightarrow> map k (map (\<lambda>r. if k r = uid then f r else r) xs) = map k xs"
  by (induction xs) auto

lemma updateRefreshToken_get:
  "\<exists>r. getRefreshToken (updateRefreshToken db uid tok t) uid = Some r \<and> rt_token r = tok"
proof (cases "find (\<lambda>r. rt_userId r = uid) (tbl_refreshToken db)")
  case None
  then show ?thesis
    by (simp add: getRefreshToken_def updateRefreshToken_def find_snoc)
next
  case (Some r0)
  then show ?thesis
    using find_map_where [of rt_userId uid "tbl_refreshToken db" r0
                             "\<lambda>r. r\<lparr>rt_token := tok, rt_updatedAt := Some t\<rparr>"]
    by (simp add: getRefreshToken_def updateRefreshToken_def)
qed

lemma all_map_where:
  "(\<And>r. Q (f r)) \<Longrightarrow>
   \<forall>r\<in>set (map (\<lambda>r. if k r = uid then f r else r) xs). k r = uid \<longrightarrow> Q r"
  by (induction xs) simp_all

lemma updateRefreshToken_rows:
  "\<forall>r\<in>set (tbl_refreshToken (updateRefreshToken db uid tok t)).
     rt_userId r = uid \<longrightarrow> rt_token r = tok"
proof (cases "find (\<lambda>r. rt_userId r = uid) (tbl_refreshToken db)")
  case None
  then have old: "\<forall>x\<in>set (tbl_refreshToken db). rt_userId x \<noteq> uid"
    by (simp add: find_None_iff)
  have "tbl_refreshToken (updateRefreshToken db uid tok t) =
          tbl_refreshToken db @ [\<lparr>rt_userId = uid, rt_token = tok, rt_updatedAt = None\<rparr>]"
    using None by (simp add: updateRefreshToken_def)
  with old show ?thesis by simp
next
  case (Some r0)
  then have eq: "tbl_refreshToken (updateRefreshToken db uid tok t) =
          map (\<lambda>r. if rt_userId r = uid then r\<lparr>rt_token := tok, rt_updatedAt := Some t\<rparr> else r)
            (tbl_refreshToken db)"
    by (simp add: updateRefreshToken_def)
  show ?thesis
    unfolding eq by (rule all_map_where) simp
qed

lemma updateRefreshToken_distinct:
  assumes "distinct (map rt_userId (tbl_refreshToken db))"
  shows "distinct (map rt_userId (tbl_refreshToken (updateRefreshToken db uid tok t)))"
proof (cases "find (\<lambda>r. rt_userId r = uid) (tbl_refreshToken db)")
  case None
  then have "\<forall>x\<in>set (tbl_refreshToken db). rt_userId x \<noteq> uid"
    by (simp add: find_None_iff)
  then have "uid \<notin> rt_userId ` set (tbl_refreshToken db)"
    by blast
  with assms None show ?thesis
    by (simp add: updateRefreshToken_def)
next
  case (Some r0)
  have "map rt_userId
          (map (\<lambda>r. if rt_userId r = uid then r\<lparr>rt_token := tok, rt_updatedAt := Some t\<rparr> else r)
             (tbl_refreshToken db)) = map rt_userId (tbl_refreshToken db)"
    by (rule map_key_where) simp
  with assms Some show ?thesis
    by (simp add: updateRefreshToken_def del: map_map)
qed

lemma updateUserLastLogin_refresh:
  assumes "updateUserLastLogin db uid t = Some db1"
  shows "tbl_refreshToken db1 = tbl_refreshToken db"
proof (cases "find (\<lambda>u. u_userId u = uid) (tbl_user db)")
  case None
  with assms show ?thesis by (simp add: updateUserLastLogin_def)
next
  case (Some u)
  with assms have "db1 = updateUserWhere uid (\<lambda>u. u\<lparr>u_lastLoginAt := Some t\<rparr>) db"
    by (simp add: updateUserLastLogin_def)
  then show ?thesis by (simp add: updateUserWhere_def)
qed

lemma login_success_shape:
  assumes "login ev db body = (db', resp)" and "reply resp = httpResponse st m (UserField u)"
  shows "\<exists>db1 at. updateUserLastLogin db (userId u) (now ev) = Some db1 \<and>
           db' = updateRefreshToken db1 (userId u) (issuedRefreshToken ev u) (now ev) \<and>
           cookies resp = [cookie ''accessToken'' at, cookie ''refreshToken'' (issuedRefreshToken ev u)]"
proof (cases "loginUserSchema (constants ev) body")
  case (Inl issues)
  with assms show ?thesis by (auto simp: login_def failWith_def)
next
  case (Inr parsed)
  note p = this
  show ?thesis
  proof (cases "findUserByEmailOrUsername db (login_email parsed)")
    case None
    with p assms show ?thesis by (auto simp: login_def failWith_def)
  next
    case (Some user)
    note f = this
    show ?thesis
    proof (cases "password user")
      case None
      with p f assms show ?thesis by (auto simp: login_def failWith_def)
    next
      case (Some hash)
      note h = this
      show ?thesis
      proof (cases "comparePassword (quick ev) (login_password parsed) hash")
        case False
        with p f h assms show ?thesis by (auto simp: login_def failWith_def)
      next
        case True
        note c = this
        show ?thesis
        proof (cases "updateUserLastLogin db (userId user) (now ev)")
          case None
          with p f h c assms show ?thesis by (auto simp: login_def failWith_def Let_def)
        next
          case (Some db1)
          with p f h c assms show ?thesis
            by (auto simp: login_def Let_def issuedRefreshToken_def)
        qed
      qed
    qed
  qed
qed

lemma login_refresh_row:
  assumes "login ev db body = (db', resp)" and "reply resp = httpResponse st m (UserField u)"
  shows "(\<exists>at. cookies resp = [cookie ''accessToken'' at, cookie ''refreshToken'' (issuedRefreshToken ev u)]) \<and>
         (\<exists>r. getRefreshToken db' (userId u) = Some r \<and> rt_token r = issuedRefreshToken ev u) \<and>
         (\<forall>r\<in>set (tbl_refreshToken db'). rt_userId r = userId u \<longrightarrow> rt_token r = issuedRefreshToken ev u) \<and>
         (distinct (map rt_userId (tbl_refreshToken db)) \<longrightarrow> distinct (map rt_userId (tbl_refreshToken db')))"
proof -
  from login_success_shape [OF assms] obtain db1 at where
    d1: "updateUserLastLogin db (userId u) (now ev) = Some db1" and
    d': "db' = updateRefreshToken db1 (userId u) (issuedRefreshToken ev u) (now ev)" and
    ck: "cookies resp = [cookie ''accessToken'' at, cookie ''refreshToken'' (issuedRefreshToken ev u)]"
    by blast
  have same: "tbl_refreshToken db1 = tbl_refreshToken db"
    using d1 by (rule updateUserLastLogin_refresh)
  have rows: "\<forall>r\<in>set (tbl_refreshToken db'). rt_userId r = userId u \<longrightarrow>
                 rt_token r = issuedRefreshToken ev u"
    unfolding d' by (rule updateRefreshToken_rows)
  have dist: "distinct (map rt_userId (tbl_refreshToken db)) \<longrightarrow>
              distinct (map rt_userId (tbl_refreshToken db'))"
    unfolding d' using updateRefreshToken_distinct [of db1] same by simp
  have got: "\<exists>r. getRefreshToken db' (userId u) = Some r \<and> rt_token r = issuedRefreshToken ev u"
    unfolding d' by (rule updateRefreshToken_get)
  from ck have ck': "\<exists>at. cookies resp =
      [cookie ''accessToken'' at, cookie ''refreshToken'' (issuedRefreshToken ev u)]" by blast
  from ck' got rows dist show ?thesis by (intro conjI)
qed

text \<open>
  C5. After a successful login of user \<open>u\<close>, the refresh token sent in the cookie is the one
  stored for \<open>u\<close>: the lookup by \<open>u\<close>'s key returns it, and every row of \<open>u\<close> in the refresh
  table holds it, so whatever token was stored before is gone. Keys that were unique in the
  refresh table stay unique, which leaves one row for each user. A second successful login
  of \<open>u\<close>, in whatever environment, replaces the stored token by the one it issues.
\<close>

theorem login_single_refresh_token:
  assumes "login ev db body = (db', resp)" and "reply resp = httpResponse st m (UserField u)"
  shows "(\<exists>at. cookies resp = [cookie ''accessToken'' at, cookie ''refreshToken'' (issuedRefreshToken ev u)]) \<and>
         (\<exists>r. getRefreshToken db' (userId u) = Some r \<and> rt_token r = issuedRefreshToken ev u) \<and>
         (\<forall>r\<in>set (tbl_refreshToken db'). rt_userId r = userId u \<longrightarrow> rt_token r = issuedRefreshToken ev u) \<and>
         (distinct (map rt_userId (tbl_refreshToken db)) \<longrightarrow> distinct (map rt_userId (tbl_refreshToken db'))) \<and>
         (\<forall>ev2 body2 db'' resp2 st2 m2 u2.
            login ev2 db' body2 = (db'', resp2) \<and> reply resp2 = httpResponse st2 m2 (UserField u2) \<and>
            userId u2 = userId u \<longrightarrow>
            (\<exists>r. getRefreshToken db'' (userId u) = Some r \<and> rt_token r = issuedRefreshToken ev2 u2) \<and>
            (\<forall>r\<in>set (tbl_refreshToken db''). rt_userId r = userId u \<longrightarrow> rt_token r = issuedRefreshToken ev2 u2))"
proof -
  have first:
    "\<exists>at. cookies resp = [cookie ''accessToken'' at, cookie ''refreshToken'' (issuedRefreshToken ev u)]"
    "\<exists>r. getRefreshToken db' (userId u) = Some r \<and> rt_token r = issuedRefreshToken ev u"
    "\<forall>r\<in>set (tbl_refreshToken db'). rt_userId r = userId u \<longrightarrow> rt_token r = issuedRefreshToken ev u"
    "distinct (map rt_userId (tbl_refreshToken db)) \<longrightarrow> distinct (map rt_userId (tbl_refreshToken db'))"
    using login_refresh_row [OF assms] by simp_all
  have second:
    "\<forall>ev2 body2 db'' resp2 st2 m2 u2.
        login ev2 db' body2 = (db'', resp2) \<and> reply resp2 = httpResponse st2 m2 (UserField u2) \<and>
        userId u2 = userId u \<longrightarrow>
        (\<exists>r. getRefreshToken db'' (userId u) = Some r \<and> rt_token r = issuedRefreshToken ev2 u2) \<and>
        (\<forall>r\<in>set (tbl_refreshToken db''). rt_userId r = userId u \<longrightarrow> rt_token r = issuedRefreshToken ev2 u2)"
  proof (intro allI impI, elim conjE)
    fix ev2 body2 db'' resp2 st2 m2 u2
    assume a: "login ev2 db' body2 = (db'', resp2)"
       and b: "reply resp2 = httpResponse st2 m2 (UserField u2)"
       and c: "userId u2 = userId u"
    show "(\<exists>r. getRefreshToken db'' (userId u) = Some r \<and> rt_token r = issuedRefreshToken ev2 u2) \<and>
          (\<forall>r\<in>set (tbl_refreshToken db''). rt_userId r = userId u \<longrightarrow> rt_token r = issuedRefreshToken ev2 u2)"
      using login_refresh_row [OF a b] c by simp
  qed
  from first second show ?thesis by (intro conjI)
qed

lemma no_verified_match:
  assumes "\<forall>u\<in>set (tbl_user db). (u_email u = k \<or> u_username u = k) \<longrightarrow> \<not> isVerifiedRow u"
  shows "findUserByEmailOrUsername db k = None"
proof -
  have "find (\<lambda>u. (u_email u = k \<or> u_username u = k) \<and> isVerifiedRow u) (tbl_user db) = None"
    using assms by (simp add: find_None_iff) blast
  then show ?thesis by (simp add: findUserByEmailOrUsername_def)
qed

text \<open>
  C4, as the claim has it, fails: validation comes first. Ana's account is verified and
  \<open>short\<close> is not her password, but it is below the minimal password length, and the
  login is answered with the validation issue and status 400, not with
  \<open>INVALID_CREDENTIALS\<close>.
\<close>

theorem login_invalid_credentials_counterexample:
  "findUserByEmailOrUsername db0 ''ana@x.com'' = Some (allScalars ana) \<and>
   password (allScalars ana) = Some ''#Secret123!'' \<and>
   \<not> comparePassword (quick ev0) ''short'' ''#Secret123!'' \<and>
   login ev0 db0 (creds ''ana@x.com'' ''short'')
     = (db0, failWith (Issues [TooSmall ''password'' 8]) (Some BAD_REQUEST)) \<and>
   failWith (Issues [TooSmall ''password'' 8]) (Some BAD_REQUEST)
     \<noteq> failWith (Msg INVALID_CREDENTIALS) (Some UNAUTHORIZED)"
  by (simp add: login_def loginUserSchema_def creds_def zString_def zMinMax_def ev0_def
        quick0_def findUserByEmailOrUsername_def db0_def ana_def bob_def isVerifiedRow_def
        allScalars_def failWith_def)

text \<open>
  C4, amended. For a login request that passed validation, the answer is the same value,
  \<open>INVALID_CREDENTIALS\<close> with status 401, no cookie and an unchanged store, in each of three
  cases: no account has the key as email or username; every account that has it is
  unconfirmed; the confirmed account that the lookup returns has a hash which the password
  does not match.
\<close>

theorem login_invalid_credentials:
  assumes "loginUserSchema (constants ev) body = Inr parsed"
    and "(\<forall>u\<in>set (tbl_user db). u_email u \<noteq> login_email parsed \<and> u_username u \<noteq> login_email parsed)
         \<or> (\<forall>u\<in>set (tbl_user db).
               (u_email u = login_email parsed \<or> u_username u = login_email parsed) \<longrightarrow>
               \<not> isVerifiedRow u)
         \<or> (\<exists>user hash. findUserByEmailOrUsername db (login_email parsed) = Some user \<and>
               password user = Some hash \<and>
               \<not> comparePassword (quick ev) (login_password parsed) hash)"
  shows "login ev db body = (db, failWith (Msg INVALID_CREDENTIALS) (Some UNAUTHORIZED))"
proof -
  have missing: ?thesis if "findUserByEmailOrUsername db (login_email parsed) = None"
    using that assms(1) by (simp add: login_def)
  from assms(2) show ?thesis
  proof (elim disjE exE conjE)
    assume "\<forall>u\<in>set (tbl_user db).
              u_email u \<noteq> login_email parsed \<and> u_username u \<noteq> login_email parsed"
    then have "\<forall>u\<in>set (tbl_user db).
              (u_email u = login_email parsed \<or> u_username u = login_email parsed) \<longrightarrow>
              \<not> isVerifiedRow u"
      by simp
    then show ?thesis by (intro missing no_verified_match)
  next
    assume "\<forall>u\<in>set (tbl_user db).
              (u_email u = login_email parsed \<or> u_username u = login_email parsed) \<longrightarrow>
              \<not> isVerifiedRow u"
    then show ?thesis by (intro missing no_verified_match)
  next
    fix user hash
    assume "findUserByEmailOrUsername db (login_email parsed) = Some user"
      "password user = Some hash"
      "\<not> comparePassword (quick ev) (login_password parsed) hash"
    with assms(1) show ?thesis by (simp add: login_def)
  qed
qed

lemma creds_parsed:
  "8 \<le> length p \<Longrightarrow> length p \<le> 24 \<Longrightarrow>
   loginUserSchema (constants ev0) (creds k p) = Inr \<lparr>login_email = k, login_password = p\<rparr>"
  by (simp add: loginUserSchema_def creds_def ev0_def zString_def zMinMax_def)

theorem login_invalid_credentials_witness:
  "login ev0 db0 (creds ''zed@x.com'' ''Secret123!'')
     = (db0, failWith (Msg INVALID_CREDENTIALS) (Some UNAUTHORIZED)) \<and>
   login ev0 db0 (creds ''bob@x.com'' ''Passw0rd!'')
     = (db0, failWith (Msg INVALID_CREDENTIALS) (Some UNAUTHORIZED)) \<and>
   login ev0 db0 (creds ''ana@x.com'' ''Secret124!'')
     = (db0, failWith (Msg INVALID_CREDENTIALS) (Some UNAUTHORIZED))"
proof -
  have p1: "loginUserSchema (constants ev0) (creds ''zed@x.com'' ''Secret123!'')
              = Inr \<lparr>login_email = ''zed@x.com'', login_password = ''Secret123!''\<rparr>"
    by (rule creds_parsed) simp_all
  have p2: "loginUserSchema (constants ev0) (creds ''bob@x.com'' ''Passw0rd!'')
              = Inr \<lparr>login_email = ''bob@x.com'', login_password = ''Passw0rd!''\<rparr>"
    by (rule creds_parsed) simp_all
  have p3: "loginUserSchema (constants ev0) (creds ''ana@x.com'' ''Secret124!'')
              = Inr \<lparr>login_email = ''ana@x.com'', login_password = ''Secret124!''\<rparr>"
    by (rule creds_parsed) simp_all
  have c1: "\<forall>u\<in>set (tbl_user db0). u_email u \<noteq> ''zed@x.com'' \<and> u_username u \<noteq> ''zed@x.com''"
    by (simp add: db0_def ana_def bob_def)
  have c2: "\<forall>u\<in>set (tbl_user db0).
              (u_email u = ''bob@x.com'' \<or> u_username u = ''bob@x.com'') \<longrightarrow> \<not> isVerifiedRow u"
    by (simp add: db0_def ana_def bob_def isVerifiedRow_def)
  have c3: "findUserByEmailOrUsername db0 ''ana@x.com'' = Some (allScalars ana) \<and>
            password (allScalars ana) = Some ''#Secret123!'' \<and>
            \<not> comparePassword (quick ev0) ''Secret124!'' ''#Secret123!''"
    by (simp add: findUserByEmailOrUsername_def db0_def ana_def bob_def isVerifiedRow_def
          allScalars_def ev0_def quick0_def)
  show ?thesis
    using login_invalid_credentials [OF p1, of db0] login_invalid_credentials [OF p2, of db0]
          login_invalid_credentials [OF p3, of db0] c1 c2 c3
    by simp
qed

lemma ana_login:
  "login ev0 (db0\<lparr>tbl_refreshToken := [\<lparr>rt_userId = ''u1'', rt_token = ''R.old'', rt_updatedAt = None\<rparr>]\<rparr>)
         (creds ''ana1'' ''Secret123!'') =
     (\<lparr>tbl_user = [ana\<lparr>u_lastLoginAt := Some 5000000\<rparr>, bob],
       tbl_refreshToken = [\<lparr>rt_userId = ''u1'', rt_token = ''R.u1'', rt_updatedAt = Some 5000000\<rparr>],
       tbl_passwordRecovery = tbl_passwordRecovery db0\<rparr>,
      \<lparr>reply = httpResponse OK (Msg LOGIN_SUCCESS)
                 (UserField \<lparr>userId = ''u1'', name = Some ''Ana'', email = ''ana@x.com'',
                    username = ''ana1'', password = None, accountConfirmation = None\<rparr>),
       cookies = [cookie ''accessToken'' ''A.u1'', cookie ''refreshToken'' ''R.u1'']\<rparr>)"
  by (simp add: login_def loginUserSchema_def creds_def zString_def zMinMax_def ev0_def quick0_def
        findUserByEmailOrUsername_def db0_def ana_def bob_def isVerifiedRow_def allScalars_def
        updateUserLastLogin_def updateUserWhere_def updateRefreshToken_def Let_def)

theorem login_single_refresh_token_witness:
  "reply (snd (login ev0
            (db0\<lparr>tbl_refreshToken :=
                   [\<lparr>rt_userId = ''u1'', rt_token = ''R.old'', rt_updatedAt = None\<rparr>]\<rparr>)
            (creds ''ana1'' ''Secret123!'')))
     = httpResponse OK (Msg LOGIN_SUCCESS)
         (UserField \<lparr>userId = ''u1'', name = Some ''Ana'', email = ''ana@x.com'',
            username = ''ana1'', password = None, accountConfirmation = None\<rparr>) \<and>
   cookies (snd (login ev0
            (db0\<lparr>tbl_refreshToken :=
                   [\<lparr>rt_userId = ''u1'', rt_token = ''R.old'', rt_updatedAt = None\<rparr>]\<rparr>)
            (creds ''ana1'' ''Secret123!'')))
     = [cookie ''accessToken'' ''A.u1'', cookie ''refreshToken'' ''R.u1''] \<and>
   (\<exists>r. getRefreshToken
          (fst (login ev0
            (db0\<lparr>tbl_refreshToken :=
                   [\<lparr>rt_userId = ''u1'', rt_token = ''R.old'', rt_updatedAt = None\<rparr>]\<rparr>)
            (creds ''ana1'' ''Secret123!''))) ''u1'' = Some r \<and> rt_token r = ''R.u1'')"
proof -
  let ?db = "db0\<lparr>tbl_refreshToken :=
                   [\<lparr>rt_userId = ''u1'', rt_token = ''R.old'', rt_updatedAt = None\<rparr>]\<rparr>"
  let ?u = "\<lparr>userId = ''u1'', name = Some ''Ana'', email = ''ana@x.com'',
            username = ''ana1'', password = None, accountConfirmation = None\<rparr>"
  have run: "login ev0 ?db (creds ''ana1'' ''Secret123!'')
               = (fst (login ev0 ?db (creds ''ana1'' ''Secret123!'')),
                  snd (login ev0 ?db (creds ''ana1'' ''Secret123!'')))"
    by simp
  have ok: "reply (snd (login ev0 ?db (creds ''ana1'' ''Secret123!'')))
              = httpResponse OK (Msg LOGIN_SUCCESS) (UserField ?u)"
    by (simp add: ana_login)
  have tok: "issuedRefreshToken ev0 ?u = ''R.u1''"
    by (simp add: issuedRefreshToken_def ev0_def quick0_def)
  have ck: "cookies (snd (login ev0 ?db (creds ''ana1'' ''Secret123!'')))
     = [cookie ''accessToken'' ''A.u1'', cookie ''refreshToken'' ''R.u1'']"
    by (simp add: ana_login)
  from login_single_refresh_token [OF run ok] ok ck tok show ?thesis
    by simp
qed

section \<open>Confirmation\<close>

lemma find_map_same:
  "find P xs = Some x \<Longrightarrow> (\<And>y. P (g y) = P y) \<Longrightarrow> find P (map g xs) = Some (g x)"
  by (induction xs) (simp_all split: if_splits)

lemma matches_confirmRow:
  "matchesTokenAndCode tok otp (if u_userId y = uid then confirmRow t y else y)
     = matchesTokenAndCode tok otp y"
  by (cases "u_accountConfirmation y")
     (simp_all add: matchesTokenAndCode_def confirmRow_def split: option.splits)

lemma find_Some_holds: "find P xs = Some x \<Longrightarrow> P x"
  by (induction xs) (simp_all split: if_splits)

lemma confirmation_success_shape:
  assumes "confirmation ev db tok otp = (db', resp)" and "reply resp = httpResponse st m d"
  shows "\<exists>u0. find (matchesTokenAndCode tok otp) (tbl_user db) = Some u0 \<and>
              db' = updateUserWhere (u_userId u0) (confirmRow (now ev)) db"
proof (cases "find (matchesTokenAndCode tok otp) (tbl_user db)")
  case None
  with assms show ?thesis
    by (auto simp: confirmation_def findUserByTokenAndCode_def failWith_def)
next
  case (Some u0)
  note f = this
  then have user: "findUserByTokenAndCode db tok otp = Some (selectTokenAndCode u0)"
    by (simp add: findUserByTokenAndCode_def)
  have uid: "userId (selectTokenAndCode u0) = u_userId u0"
    by (simp add: selectTokenAndCode_def)
  show ?thesis
  proof (cases "isVerified (selectTokenAndCode u0)")
    case True
    with assms user show ?thesis
      by (auto simp: confirmation_def failWith_def)
  next
    case False
    note nv = this
    show ?thesis
    proof (cases "userId (selectTokenAndCode u0) = []")
      case True
      with assms user nv show ?thesis
        by (auto simp: confirmation_def failWith_def)
    next
      case False
      note g = this
      show ?thesis
      proof (cases "confirmAccount db (userId (selectTokenAndCode u0)) (now ev)")
        case None
        with assms user nv g show ?thesis
          by (auto simp: confirmation_def failWith_def)
      next
        case (Some pr)
        then have "fst pr = updateUserWhere (u_userId u0) (confirmRow (now ev)) db"
          unfolding uid by (auto simp: confirmAccount_def split: option.splits if_splits)
        moreover have "db' = fst pr"
          using assms(1) user nv g Some
          by (cases pr) (simp add: confirmation_def split: if_splits)
        ultimately show ?thesis using f by simp
      qed
    qed
  qed
qed

lemma confirmed_again:
  assumes "find (matchesTokenAndCode tok otp) (tbl_user db) = Some u0"
  shows "confirmation ev2 (updateUserWhere (u_userId u0) (confirmRow t) db) tok otp
           = (updateUserWhere (u_userId u0) (confirmRow t) db,
              failWith (Msg ACCOUNT_ALREADY_VERIFIED) (Some BAD_REQUEST))"
proof -
  let ?g = "\<lambda>u. if u_userId u = u_userId u0 then confirmRow t u else u"
  have "find (matchesTokenAndCode tok otp) (map ?g (tbl_user db)) = Some (?g u0)"
    using assms by (rule find_map_same) (rule matches_confirmRow)
  then have found: "findUserByTokenAndCode (updateUserWhere (u_userId u0) (confirmRow t) db) tok otp
                      = Some (selectTokenAndCode (confirmRow t u0))"
    by (simp add: findUserByTokenAndCode_def updateUserWhere_def)
  from assms have "matchesTokenAndCode tok otp u0" by (rule find_Some_holds)
  then have "isVerified (selectTokenAndCode (confirmRow t u0))"
    by (cases "u_accountConfirmation u0")
       (simp_all add: matchesTokenAndCode_def isVerified_def selectTokenAndCode_def confirmRow_def)
  with found show ?thesis by (simp add: confirmation_def)
qed

text \<open>
  What holds of every confirmation request, with or without a code: when the filter
  matches no account the answer is \<open>INVALID_TOKEN_CODE\<close>, status 401; when the account found
  is already verified it is \<open>ACCOUNT_ALREADY_VERIFIED\<close>, status 400; and after a
  confirmation that succeeded, the same request sent again is answered
  \<open>ACCOUNT_ALREADY_VERIFIED\<close> and changes nothing.
\<close>

lemma confirmation_answers:
  "((\<forall>u\<in>set (tbl_user db). \<not> matchesTokenAndCode tok otp u) \<longrightarrow>
      confirmation ev db tok otp = (db, failWith (Msg INVALID_TOKEN_CODE) (Some UNAUTHORIZED))) \<and>
   (\<forall>user. findUserByTokenAndCode db tok otp = Some user \<and> isVerified user \<longrightarrow>
      confirmation ev db tok otp
        = (db, failWith (Msg ACCOUNT_ALREADY_VERIFIED) (Some BAD_REQUEST))) \<and>
   (\<forall>db' resp st m d.
      confirmation ev db tok otp = (db', resp) \<and> reply resp = httpResponse st m d \<longrightarrow>
      confirmation ev2 db' tok otp
        = (db', failWith (Msg ACCOUNT_ALREADY_VERIFIED) (Some BAD_REQUEST)))"
proof (intro conjI allI impI)
  assume "\<forall>u\<in>set (tbl_user db). \<not> matchesTokenAndCode tok otp u"
  then have "find (matchesTokenAndCode tok otp) (tbl_user db) = None"
    by (simp add: find_None_iff)
  then show "confirmation ev db tok otp
               = (db, failWith (Msg INVALID_TOKEN_CODE) (Some UNAUTHORIZED))"
    by (simp add: confirmation_def findUserByTokenAndCode_def)
next
  fix user
  assume "findUserByTokenAndCode db tok otp = Some user \<and> isVerified user"
  then show "confirmation ev db tok otp
               = (db, failWith (Msg ACCOUNT_ALREADY_VERIFIED) (Some BAD_REQUEST))"
    by (simp add: confirmation_def)
next
  fix db' resp st m d
  assume a: "confirmation ev db tok otp = (db', resp) \<and> reply resp = httpResponse st m d"
  then obtain u0 where "find (matchesTokenAndCode tok otp) (tbl_user db) = Some u0"
    and "db' = updateUserWhere (u_userId u0) (confirmRow (now ev)) db"
    using confirmation_success_shape [of ev db tok otp db' resp st m d] by blast
  then show "confirmation ev2 db' tok otp
               = (db', failWith (Msg ACCOUNT_ALREADY_VERIFIED) (Some BAD_REQUEST))"
    using confirmed_again [of tok otp db u0 ev2 "now ev"] by simp
qed

lemma bob_confirms:
  "confirmation ev0 db0 ''t2'' (Some ''222222'') =
     (db0\<lparr>tbl_user := [ana, confirmRow 5000000 bob]\<rparr>,
      respond OK (Literal ''Account confirmed successfully'')
        (UserField \<lparr>userId = ''u2'', name = Some ''Bob'', email = ''bob@x.com'',
           username = ''bob2'', password = Some ''#Passw0rd!'',
           accountConfirmation =
             Some \<lparr>ac_token = ''t2'', ac_code = ''222222'', ac_timestamp = Some 5000000,
                   ac_isVerified = True\<rparr>\<rparr>))"
  by (simp add: confirmation_def findUserByTokenAndCode_def matchesTokenAndCode_def db0_def
        ana_def bob_def selectTokenAndCode_def isVerified_def confirmAccount_def
        updateUserWhere_def confirmRow_def includeConfirmation_def ev0_def mail0_def)

text \<open>
  C9 does not hold of \<^verbatim>\<open>confirmation\<close>. \<^verbatim>\<open>confirmAccount\<close> asks for the updated row with
  \<^verbatim>\<open>include\<close>, which returns every scalar column, and the controller sends that row as the
  payload: Bob's confirmation answers with his stored password hash.
\<close>

theorem confirmation_payload_has_hash:
  "reply (snd (confirmation ev0 db0 ''t2'' (Some ''222222''))) =
     httpResponse OK (Literal ''Account confirmed successfully'')
        (UserField \<lparr>userId = ''u2'', name = Some ''Bob'', email = ''bob@x.com'',
           username = ''bob2'', password = Some ''#Passw0rd!'',
           accountConfirmation =
             Some \<lparr>ac_token = ''t2'', ac_code = ''222222'', ac_timestamp = Some 5000000,
                   ac_isVerified = True\<rparr>\<rparr>) \<and>
   u_password bob = ''#Passw0rd!''"
  by (simp add: bob_confirms respond_def bob_def)

text \<open>
  C8 does not hold of a request that carries no code. Bob is registered and unconfirmed,
  with token \<open>t2\<close> and code \<open>222222\<close>. A request with his token and a wrong code is
  refused with \<open>INVALID_TOKEN_CODE\<close>; a request with his token and no code at all presents
  no (token, code) pair of any account, and yet it finds Bob, confirms him and answers
  with success.
\<close>

theorem confirmation_without_code:
  "u_accountConfirmation bob
     = Some \<lparr>ac_token = ''t2'', ac_code = ''222222'', ac_timestamp = None,
             ac_isVerified = False\<rparr> \<and>
   confirmation ev0 db0 ''t2'' (Some ''000000'')
     = (db0, failWith (Msg INVALID_TOKEN_CODE) (Some UNAUTHORIZED)) \<and>
   confirmation ev0 db0 ''t2'' None =
     (db0\<lparr>tbl_user := [ana, confirmRow 5000000 bob]\<rparr>,
      respond OK (Literal ''Account confirmed successfully'')
        (UserField \<lparr>userId = ''u2'', name = Some ''Bob'', email = ''bob@x.com'',
           username = ''bob2'', password = Some ''#Passw0rd!'',
           accountConfirmation =
             Some \<lparr>ac_token = ''t2'', ac_code = ''222222'', ac_timestamp = Some 5000000,
                   ac_isVerified = True\<rparr>\<rparr>)) \<and>
   isVerifiedRow (confirmRow 5000000 bob)"
  by (simp add: confirmation_def findUserByTokenAndCode_def matchesTokenAndCode_def db0_def
        ana_def bob_def selectTokenAndCode_def isVerified_def isVerifiedRow_def
        confirmAccount_def updateUserWhere_def confirmRow_def includeConfirmation_def
        ev0_def mail0_def)

section \<open>Password reset\<close>

lemma find_Some_mem: "find P xs = Some x \<Longrightarrow> x \<in> set xs \<and> P x"
  by (induction xs) (auto split: if_splits)

lemma find_by_key:
  "inj_on k (set ys) \<Longrightarrow> x \<in> set ys \<Longrightarrow> find (\<lambda>y. k y = k x) ys = Some x"
proof (induction ys)
  case Nil
  then show ?case by simp
next
  case (Cons y ys)
  show ?case
  proof (cases "k y = k x")
    case True
    with Cons.prems have "y = x" by (auto simp: inj_on_def)
    with True show ?thesis by simp
  next
    case False
    with Cons.prems have "x \<in> set ys" "inj_on k (set ys)" by auto
    with Cons.IH False show ?thesis by simp
  qed
qed

lemma find_rev_Some: "find P xs = Some x \<Longrightarrow> \<exists>y. find P (rev xs) = Some y"
proof -
  assume "find P xs = Some x"
  then have "x \<in> set (rev xs) \<and> P x" using find_Some_mem [of P xs x] by simp
  then have "find P (rev xs) \<noteq> None" by (auto simp: find_None_iff)
  then show ?thesis by blast
qed

lemma getExpiryTime_of_row:
  assumes "distinct (map pr_userId (tbl_passwordRecovery db))"
    and "findUserByResetToken db tok = Some tokenData"
  shows "getExpiryTime db (pr_userId tokenData) = Some (pr_expiry tokenData)"
proof -
  from assms(2) have mem: "tokenData \<in> set (rev (tbl_passwordRecovery db))"
    using find_Some_mem [of "\<lambda>r. pr_token r = Some tok" "tbl_passwordRecovery db" tokenData]
    by (simp add: findUserByResetToken_def)
  from assms(1) have "inj_on pr_userId (set (rev (tbl_passwordRecovery db)))"
    by (simp add: distinct_map)
  then have "find (\<lambda>r. pr_userId r = pr_userId tokenData) (rev (tbl_passwordRecovery db))
               = Some tokenData"
    using mem by (rule find_by_key)
  then show ?thesis by (simp add: getExpiryTime_def)
qed

lemma findUserById_userId: "findUserById db uid = Some user \<Longrightarrow> userId user = uid"
proof -
  assume a: "findUserById db uid = Some user"
  then obtain u where f: "find (\<lambda>u. u_userId u = uid) (tbl_user db) = Some u"
    and v: "user = selectById u"
    by (auto simp: findUserById_def)
  from f have "u_userId u = uid"
    using find_Some_mem [of "\<lambda>u. u_userId u = uid" "tbl_user db" u] by simp
  with v show ?thesis by (simp add: selectById_def)
qed

lemma diffMinutes_ge_15: "15 \<le> diffMinutes a b \<longleftrightarrow> b + 900000 \<le> a"
  by (auto simp: diffMinutes_def Let_def)

lemma resetPassword_at_expiry_check:
  assumes "resetPasswordSchema ev body = Inr parsed"
    and "findUserByResetToken db tok = Some tokenData"
    and "findUserById db (pr_userId tokenData) = Some user"
    and "isVerified user"
    and "getExpiryTime db (userId user) = Some (Some expiry)"
  shows "resetPassword ev db tok body =
     (if 15 \<le> diffMinutes (now ev) expiry
      then (db, failWith (Msg TIMEOUT) (Some FORBIDDEN))
      else storeNewPassword ev db user parsed)"
  using assms by (simp add: resetPassword_def)

lemma storeNewPassword_not_timeout:
  "storeNewPassword ev db user parsed \<noteq> (db2, failWith (Msg TIMEOUT) (Some FORBIDDEN))"
  by (simp add: storeNewPassword_def failWith_def respond_def split: option.splits)

lemma saveResetPasswordCode_expiry:
  "getExpiryTime (saveResetPasswordCode db uid tok date) uid = Some (Some date)"
proof (cases "find (\<lambda>r. pr_userId r = uid) (tbl_passwordRecovery db)")
  case None
  then show ?thesis
    by (simp add: getExpiryTime_def saveResetPasswordCode_def)
next
  case (Some r0)
  then obtain r1 where r1: "find (\<lambda>r. pr_userId r = uid) (rev (tbl_passwordRecovery db)) = Some r1"
    using find_rev_Some by fastforce
  have "find (\<lambda>r. pr_userId r = uid)
          (map (\<lambda>r. if pr_userId r = uid then r\<lparr>pr_token := Some tok, pr_expiry := Some date\<rparr> else r)
             (rev (tbl_passwordRecovery db)))
        = Some (r1\<lparr>pr_token := Some tok, pr_expiry := Some date\<rparr>)"
    using r1 by (rule find_map_where) simp
  with Some show ?thesis
    by (simp add: getExpiryTime_def saveResetPasswordCode_def rev_map)
qed

lemma forgotPassword_success_shape:
  assumes "forgotPassword ev db body = (db', resp)" and "reply resp = httpResponse st m d"
  shows "\<exists>key user. forgotPasswordSchema ev body = Inr key \<and>
           findUserByEmailOrUsername db key = Some user \<and>
           db' = saveResetPasswordCode db (userId user) (generateRandomToken (quick ev))
                   (generateExpirationTime (now ev) 15)"
proof (cases "forgotPasswordSchema ev body")
  case (Inl issues)
  with assms show ?thesis by (auto simp: forgotPassword_def failWith_def)
next
  case (Inr key)
  note k = this
  show ?thesis
  proof (cases "findUserByEmailOrUsername db key")
    case None
    with k assms show ?thesis by (auto simp: forgotPassword_def failWith_def)
  next
    case (Some user)
    with k assms show ?thesis
      by (auto simp: forgotPassword_def failWith_def Let_def split: if_splits)
  qed
qed

text \<open>
  C2, amended. Take a reset-password request that passed validation and whose token is that
  of a recovery row with an expiry, the row of an existing and verified account (user keys
  are unique in the recovery table). It fails with \<open>TIMEOUT\<close>, status 403, exactly when the
  whole minutes elapsed from the stored expiry to now are at least 15, that is, when now is
  at or past the expiry plus 15 minutes; otherwise it goes on to the steps after the expiry
  check. A forgot-password request that succeeds stores, for its user, the expiry now + 15
  minutes.
\<close>

theorem resetPassword_timeout:
  assumes "resetPasswordSchema ev body = Inr parsed"
    and "distinct (map pr_userId (tbl_passwordRecovery db))"
    and "findUserByResetToken db tok = Some tokenData"
    and "pr_expiry tokenData = Some expiry"
    and "findUserById db (pr_userId tokenData) = Some user"
    and "isVerified user"
  shows "(resetPassword ev db tok body = (db, failWith (Msg TIMEOUT) (Some FORBIDDEN))
            \<longleftrightarrow> 15 \<le> diffMinutes (now ev) expiry) \<and>
         (15 \<le> diffMinutes (now ev) expiry \<longleftrightarrow> expiry + 15 * 60000 \<le> now ev) \<and>
         (\<not> 15 \<le> diffMinutes (now ev) expiry \<longrightarrow>
            resetPassword ev db tok body = storeNewPassword ev db user parsed) \<and>
         (\<forall>fdb fbody fdb' fresp st m d.
            forgotPassword ev fdb fbody = (fdb', fresp) \<and> reply fresp = httpResponse st m d \<longrightarrow>
            (\<exists>key fuser. forgotPasswordSchema ev fbody = Inr key \<and>
               findUserByEmailOrUsername fdb key = Some fuser \<and>
               getExpiryTime fdb' (userId fuser) = Some (Some (now ev + 15 * 60000))))"
proof -
  have uid: "userId user = pr_userId tokenData"
    using assms(5) by (rule findUserById_userId)
  have "getExpiryTime db (userId user) = Some (Some expiry)"
    using getExpiryTime_of_row [OF assms(2,3)] assms(4) uid by simp
  then have run: "resetPassword ev db tok body =
     (if 15 \<le> diffMinutes (now ev) expiry
      then (db, failWith (Msg TIMEOUT) (Some FORBIDDEN))
      else storeNewPassword ev db user parsed)"
    using resetPassword_at_expiry_check [OF assms(1,3,5,6)] by simp
  have a: "resetPassword ev db tok body = (db, failWith (Msg TIMEOUT) (Some FORBIDDEN))
            \<longleftrightarrow> 15 \<le> diffMinutes (now ev) expiry"
    using run storeNewPassword_not_timeout [of ev db user parsed db] by simp
  have b: "15 \<le> diffMinutes (now ev) expiry \<longleftrightarrow> expiry + 15 * 60000 \<le> now ev"
    using diffMinutes_ge_15 [of "now ev" expiry] by simp
  have c: "\<not> 15 \<le> diffMinutes (now ev) expiry \<longrightarrow>
            resetPassword ev db tok body = storeNewPassword ev db user parsed"
    using run by simp
  have d: "\<forall>fdb fbody fdb' fresp st m d.
            forgotPassword ev fdb fbody = (fdb', fresp) \<and> reply fresp = httpResponse st m d \<longrightarrow>
            (\<exists>key fuser. forgotPasswordSchema ev fbody = Inr key \<and>
               findUserByEmailOrUsername fdb key = Some fuser \<and>
               getExpiryTime fdb' (userId fuser) = Some (Some (now ev + 15 * 60000)))"
  proof (intro allI impI, elim conjE)
    fix fdb fbody fdb' fresp st m d
    assume "forgotPassword ev fdb fbody = (fdb', fresp)" "reply fresp = httpResponse st m d"
    then obtain key fuser where k: "forgotPasswordSchema ev fbody = Inr key"
      and u: "findUserByEmailOrUsername fdb key = Some fuser"
      and s: "fdb' = saveResetPasswordCode fdb (userId fuser) (generateRandomToken (quick ev))
                       (generateExpirationTime (now ev) 15)"
      using forgotPassword_success_shape by blast
    have "getExpiryTime fdb' (userId fuser) = Some (Some (now ev + 15 * 60000))"
      unfolding s by (simp add: saveResetPasswordCode_expiry generateExpirationTime_def)
    with k u show "\<exists>key fuser. forgotPasswordSchema ev fbody = Inr key \<and>
               findUserByEmailOrUsername fdb key = Some fuser \<and>
               getExpiryTime fdb' (userId fuser) = Some (Some (now ev + 15 * 60000))"
      by blast
  qed
  from a b c d show ?thesis by (intro conjI)
qed

text \<open>
  C2, as the claim has it, fails: when the account that owns the recovery row is not
  verified, a request 16 minutes past the stored expiry is answered \<open>ACCOUNT_NOT_VERIFIED\<close>,
  not \<open>TIMEOUT\<close>.
\<close>

theorem resetPassword_timeout_counterexample:
  "resetPasswordSchema ev0 (newPasswords ''NewSecret1!'' ''NewSecret1!'')
     = Inr \<lparr>newPassword = ''NewSecret1!'', confirmNewPassword = ''NewSecret1!''\<rparr> \<and>
   findUserByResetToken db0_bob ''reset2''
     = Some \<lparr>pr_userId = ''u2'', pr_token = Some ''reset2'', pr_expiry = Some 4000000,
             pr_lastResetAt = None\<rparr> \<and>
   diffMinutes (now ev0) 4000000 = 16 \<and>
   resetPassword ev0 db0_bob ''reset2'' (newPasswords ''NewSecret1!'' ''NewSecret1!'')
     = (db0_bob, failWith (Msg ACCOUNT_NOT_VERIFIED) (Some FORBIDDEN)) \<and>
   failWith (Msg ACCOUNT_NOT_VERIFIED) (Some FORBIDDEN) \<noteq> failWith (Msg TIMEOUT) (Some FORBIDDEN)"
  by (simp add: resetPassword_def ev0_def newPasswords_def findUserByResetToken_def db0_bob_def
        db0_def findUserById_def ana_def bob_def selectById_def isVerified_def diffMinutes_def
        failWith_def)

lemma np_parsed:
  "resetPasswordSchema (ev0\<lparr>now := t\<rparr>) (newPasswords ''NewSecret1!'' ''NewSecret1!'')
     = Inr \<lparr>newPassword = ''NewSecret1!'', confirmNewPassword = ''NewSecret1!''\<rparr>"
  by (simp add: ev0_def newPasswords_def)

lemma ana_row:
  "findUserByResetToken db0 ''reset1''
     = Some \<lparr>pr_userId = ''u1'', pr_token = Some ''reset1'', pr_expiry = Some 4000000,
             pr_lastResetAt = None\<rparr>"
  by (simp add: findUserByResetToken_def db0_def)

lemma ana_by_id: "findUserById db0 ''u1'' = Some (selectById ana)"
  by (simp add: findUserById_def db0_def ana_def)

lemma ana_verified: "isVerified (selectById ana)"
  by (simp add: isVerified_def selectById_def ana_def)

lemma db0_unique: "distinct (map pr_userId (tbl_passwordRecovery db0))"
  by (simp add: db0_def)

lemma ana_reset_in_time:
  "storeNewPassword (ev0\<lparr>now := 4100000\<rparr>) db0 (selectById ana)
      \<lparr>newPassword = ''NewSecret1!'', confirmNewPassword = ''NewSecret1!''\<rparr>
   = (\<lparr>tbl_user = [ana\<lparr>u_password := ''#NewSecret1!''\<rparr>, bob],
       tbl_refreshToken = tbl_refreshToken db0,
       tbl_passwordRecovery =
         [\<lparr>pr_userId = ''u1'', pr_token = None, pr_expiry = None, pr_lastResetAt = None\<rparr>]\<rparr>,
      respond OK (Literal ''Password reset successfully'') EmptyObj)"
  by (simp add: storeNewPassword_def getPasswordbyUserId_def selectById_def db0_def ana_def
        bob_def ev0_def quick0_def mail0_def updateUserPasswordbyId_def updateUserWhere_def
        clearResetTokenAndExpiry_def)

lemma ana_forgot:
  "forgotPassword ev0 db0 \<lparr>fb_email = Some ''ana@x.com''\<rparr>
   = (db0\<lparr>tbl_passwordRecovery :=
            [\<lparr>pr_userId = ''u1'', pr_token = Some ''tok9'', pr_expiry = Some 5900000,
              pr_lastResetAt = None\<rparr>]\<rparr>,
      respond OK (Literal ''Forgot password'') EmptyObj)"
  by (simp add: forgotPassword_def ev0_def quick0_def mail0_def findUserByEmailOrUsername_def
        db0_def ana_def bob_def isVerifiedRow_def allScalars_def saveResetPasswordCode_def
        generateExpirationTime_def Let_def)

theorem resetPassword_timeout_witness:
  "15 \<le> diffMinutes (now ev0) 4000000 \<and>
   resetPassword ev0 db0 ''reset1'' (newPasswords ''NewSecret1!'' ''NewSecret1!'')
     = (db0, failWith (Msg TIMEOUT) (Some FORBIDDEN)) \<and>
   \<not> 15 \<le> diffMinutes (now (ev0\<lparr>now := 4100000\<rparr>)) 4000000 \<and>
   reply (snd (resetPassword (ev0\<lparr>now := 4100000\<rparr>) db0 ''reset1''
                 (newPasswords ''NewSecret1!'' ''NewSecret1!'')))
     = httpResponse OK (Literal ''Password reset successfully'') EmptyObj \<and>
   getExpiryTime (fst (forgotPassword ev0 db0 \<lparr>fb_email = Some ''ana@x.com''\<rparr>)) ''u1''
     = Some (Some (now ev0 + 15 * 60000))"
proof -
  let ?row = "\<lparr>pr_userId = ''u1'', pr_token = Some ''reset1'', pr_expiry = Some 4000000,
               pr_lastResetAt = None\<rparr>"
  let ?body = "newPasswords ''NewSecret1!'' ''NewSecret1!''"
  have byid: "findUserById db0 (pr_userId ?row) = Some (selectById ana)"
    using ana_by_id by simp
  have exp: "pr_expiry ?row = Some 4000000" by simp
  have late: "15 \<le> diffMinutes (now ev0) 4000000"
    by (simp add: diffMinutes_def ev0_def)
  have early: "\<not> 15 \<le> diffMinutes (now (ev0\<lparr>now := 4100000\<rparr>)) 4000000"
    by (simp add: diffMinutes_def)
  have p0: "resetPasswordSchema ev0 ?body
     = Inr \<lparr>newPassword = ''NewSecret1!'', confirmNewPassword = ''NewSecret1!''\<rparr>"
    using np_parsed [of "now ev0"] by simp
  note t1 = resetPassword_timeout [OF p0 db0_unique ana_row exp byid ana_verified]
  note t2 = resetPassword_timeout [OF np_parsed db0_unique ana_row exp byid ana_verified,
                                    of 4100000]
  from t1 late have r1: "resetPassword ev0 db0 ''reset1'' ?body
     = (db0, failWith (Msg TIMEOUT) (Some FORBIDDEN))" by blast
  from t2 early have "resetPassword (ev0\<lparr>now := 4100000\<rparr>) db0 ''reset1'' ?body
     = storeNewPassword (ev0\<lparr>now := 4100000\<rparr>) db0 (selectById ana)
         \<lparr>newPassword = ''NewSecret1!'', confirmNewPassword = ''NewSecret1!''\<rparr>" by blast
  then have r2: "reply (snd (resetPassword (ev0\<lparr>now := 4100000\<rparr>) db0 ''reset1'' ?body))
     = httpResponse OK (Literal ''Password reset successfully'') EmptyObj"
    by (simp add: ana_reset_in_time respond_def)
  have f1: "forgotPassword ev0 db0 \<lparr>fb_email = Some ''ana@x.com''\<rparr>
              = (fst (forgotPassword ev0 db0 \<lparr>fb_email = Some ''ana@x.com''\<rparr>),
                 snd (forgotPassword ev0 db0 \<lparr>fb_email = Some ''ana@x.com''\<rparr>))" by simp
  have f2: "reply (snd (forgotPassword ev0 db0 \<lparr>fb_email = Some ''ana@x.com''\<rparr>))
              = httpResponse OK (Literal ''Forgot password'') EmptyObj"
    by (simp add: ana_forgot respond_def)
  from t1 f1 f2 obtain key fuser where
      k: "forgotPasswordSchema ev0 \<lparr>fb_email = Some ''ana@x.com''\<rparr> = Inr key"
    and u: "findUserByEmailOrUsername db0 key = Some fuser"
    and e: "getExpiryTime (fst (forgotPassword ev0 db0 \<lparr>fb_email = Some ''ana@x.com''\<rparr>))
              (userId fuser) = Some (Some (now ev0 + 15 * 60000))"
    by blast
  from k have "key = ''ana@x.com''" by (simp add: ev0_def)
  with u have "userId fuser = ''u1''"
    by (auto simp: findUserByEmailOrUsername_def db0_def ana_def bob_def isVerifiedRow_def
          allScalars_def)
  with e have r3: "getExpiryTime (fst (forgotPassword ev0 db0 \<lparr>fb_email = Some ''ana@x.com''\<rparr>))
     ''u1'' = Some (Some (now ev0 + 15 * 60000))" by simp
  from late r1 early r2 r3 show ?thesis by (intro conjI)
qed


lemma resetPassword_shape:
  "(fst (resetPassword ev db tok body) = db \<and>
      (\<exists>m st. reply (snd (resetPassword ev db tok body)) = httpError m (Some st)))
   \<or> (fst (resetPassword ev db tok body) = db \<and>
       reply (snd (resetPassword ev db tok body)) = httpError (Thrown RecordNotFound) None)
   \<or> (\<exists>parsed tokenData user dbp.
         resetPasswordSchema ev body = Inr parsed \<and>
         findUserByResetToken db tok = Some tokenData \<and>
         findUserById db (pr_userId tokenData) = Some user \<and>
         updateUserPasswordbyId db (userId user)
           (hashPassword (quick ev) (newPassword parsed)) = Some dbp \<and>
         ((fst (resetPassword ev db tok body) = dbp \<and>
           reply (snd (resetPassword ev db tok body)) = httpError (Thrown RecordNotFound) None)
          \<or> (clearResetTokenAndExpiry dbp (userId user) = Some (fst (resetPassword ev db tok body)) \<and>
              (reply (snd (resetPassword ev db tok body)) = httpError (Thrown MailFailure) None \<or>
               reply (snd (resetPassword ev db tok body))
                 = httpResponse OK (Literal ''Password reset successfully'') EmptyObj))))"
  by (simp add: resetPassword_def storeNewPassword_def failWith_def respond_def
           split: sum.splits option.splits)

lemma updateUserPasswordbyId_effect:
  assumes "updateUserPasswordbyId db uid pw = Some dbp"
  shows "getPasswordbyUserId dbp uid = Some pw \<and>
         tbl_passwordRecovery dbp = tbl_passwordRecovery db"
proof (cases "find (\<lambda>u. u_userId u = uid) (tbl_user db)")
  case None
  with assms show ?thesis by (simp add: updateUserPasswordbyId_def)
next
  case (Some u0)
  with assms have eq: "dbp = updateUserWhere uid (\<lambda>u. u\<lparr>u_password := pw\<rparr>) db"
    by (simp add: updateUserPasswordbyId_def)
  have "find (\<lambda>u. u_userId u = uid)
          (map (\<lambda>u. if u_userId u = uid then u\<lparr>u_password := pw\<rparr> else u) (tbl_user db))
        = Some (u0\<lparr>u_password := pw\<rparr>)"
    using Some by (rule find_map_where) simp
  then have a: "getPasswordbyUserId dbp uid = Some pw"
    unfolding eq by (simp add: getPasswordbyUserId_def updateUserWhere_def)
  have b: "tbl_passwordRecovery dbp = tbl_passwordRecovery db"
    unfolding eq by (simp add: updateUserWhere_def)
  from a b show ?thesis by (rule conjI)
qed

lemma clearResetTokenAndExpiry_effect:
  assumes "clearResetTokenAndExpiry dbp uid = Some dbc"
  shows "tbl_user dbc = tbl_user dbp \<and>
         (\<forall>r\<in>set (tbl_passwordRecovery dbc).
            pr_userId r = uid \<longrightarrow> pr_token r = None \<and> pr_expiry r = None)"
proof (cases "find (\<lambda>r. pr_userId r = uid) (tbl_passwordRecovery dbp)")
  case None
  with assms show ?thesis by (simp add: clearResetTokenAndExpiry_def)
next
  case (Some r0)
  with assms have eq: "dbc = dbp\<lparr>tbl_passwordRecovery :=
         map (\<lambda>r. if pr_userId r = uid then r\<lparr>pr_token := None, pr_expiry := None\<rparr> else r)
           (tbl_passwordRecovery dbp)\<rparr>"
    by (simp add: clearResetTokenAndExpiry_def)
  have a: "tbl_user dbc = tbl_user dbp"
    unfolding eq by simp
  have b: "tbl_passwordRecovery dbc =
         map (\<lambda>r. if pr_userId r = uid then r\<lparr>pr_token := None, pr_expiry := None\<rparr> else r)
           (tbl_passwordRecovery dbp)"
    unfolding eq by simp
  have c: "\<forall>r\<in>set (tbl_passwordRecovery dbc).
            pr_userId r = uid \<longrightarrow> pr_token r = None \<and> pr_expiry r = None"
    unfolding b by (rule all_map_where) simp
  from a c show ?thesis by (rule conjI)
qed

text \<open>
  C10. Whenever \<^verbatim>\<open>resetPassword\<close> answers with an error of its own, that is, an
  \<open>httpError\<close> to which the controller gives a status (failed validation, unknown reset
  token, missing user, unverified account, missing expiry or password row, timeout, same
  password), the store is exactly as before: password hash, reset token and expiry are
  untouched. And whenever the recovery table has changed, the new hash was stored first:
  the change is the clearing of the user's token and expiry, applied to the store that
  already holds the new hash, and the resulting store returns that hash for the user.
\<close>

theorem resetPassword_failure_keeps_store:
  "(\<forall>m st. reply (snd (resetPassword ev db tok body)) = httpError m (Some st) \<longrightarrow>
      fst (resetPassword ev db tok body) = db) \<and>
   (tbl_passwordRecovery (fst (resetPassword ev db tok body)) \<noteq> tbl_passwordRecovery db \<longrightarrow>
      (\<exists>parsed tokenData user dbp.
         resetPasswordSchema ev body = Inr parsed \<and>
         findUserByResetToken db tok = Some tokenData \<and>
         findUserById db (pr_userId tokenData) = Some user \<and>
         updateUserPasswordbyId db (userId user)
           (hashPassword (quick ev) (newPassword parsed)) = Some dbp \<and>
         clearResetTokenAndExpiry dbp (userId user) = Some (fst (resetPassword ev db tok body)) \<and>
         getPasswordbyUserId (fst (resetPassword ev db tok body)) (userId user)
           = Some (hashPassword (quick ev) (newPassword parsed)) \<and>
         (\<forall>r\<in>set (tbl_passwordRecovery (fst (resetPassword ev db tok body))).
            pr_userId r = userId user \<longrightarrow> pr_token r = None \<and> pr_expiry r = None)))"
proof (intro conjI allI impI)
  fix m st
  assume "reply (snd (resetPassword ev db tok body)) = httpError m (Some st)"
  with resetPassword_shape [of ev db tok body]
  show "fst (resetPassword ev db tok body) = db"
    by auto
next
  let ?r = "resetPassword ev db tok body"
  assume changed: "tbl_passwordRecovery (fst ?r) \<noteq> tbl_passwordRecovery db"
  with resetPassword_shape [of ev db tok body]
  obtain parsed tokenData user dbp where
      p: "resetPasswordSchema ev body = Inr parsed"
    and t: "findUserByResetToken db tok = Some tokenData"
    and u: "findUserById db (pr_userId tokenData) = Some user"
    and w: "updateUserPasswordbyId db (userId user)
              (hashPassword (quick ev) (newPassword parsed)) = Some dbp"
    and alt: "fst ?r = dbp \<or> clearResetTokenAndExpiry dbp (userId user) = Some (fst ?r)"
    by auto
  note upd = updateUserPasswordbyId_effect [OF w]
  from alt changed upd have c: "clearResetTokenAndExpiry dbp (userId user) = Some (fst ?r)"
    by auto
  note clr = clearResetTokenAndExpiry_effect [OF c]
  from upd clr have g: "getPasswordbyUserId (fst ?r) (userId user)
           = Some (hashPassword (quick ev) (newPassword parsed))"
    by (simp add: getPasswordbyUserId_def)
  from p t u w c g clr
  show "\<exists>parsed tokenData user dbp.
         resetPasswordSchema ev body = Inr parsed \<and>
         findUserByResetToken db tok = Some tokenData \<and>
         findUserById db (pr_userId tokenData) = Some user \<and>
         updateUserPasswordbyId db (userId user)
           (hashPassword (quick ev) (newPassword parsed)) = Some dbp \<and>
         clearResetTokenAndExpiry dbp (userId user) = Some (fst ?r) \<and>
         getPasswordbyUserId (fst ?r) (userId user)
           = Some (hashPassword (quick ev) (newPassword parsed)) \<and>
         (\<forall>r\<in>set (tbl_passwordRecovery (fst ?r)).
            pr_userId r = userId user \<longrightarrow> pr_token r = None \<and> pr_expiry r = None)"
    by blast
qed


lemma ana_reset_late:
  "resetPassword ev0 db0 ''reset1'' (newPasswords ''NewSecret1!'' ''NewSecret1!'')
     = (db0, failWith (Msg TIMEOUT) (Some FORBIDDEN))"
  by (simp add: resetPassword_def ev0_def newPasswords_def findUserByResetToken_def db0_def
        findUserById_def ana_def bob_def selectById_def isVerified_def getExpiryTime_def
        diffMinutes_def)

lemma ana_reset_early:
  "resetPassword (ev0\<lparr>now := 4100000\<rparr>) db0 ''reset1'' (newPasswords ''NewSecret1!'' ''NewSecret1!'')
     = (\<lparr>tbl_user = [ana\<lparr>u_password := ''#NewSecret1!''\<rparr>, bob],
         tbl_refreshToken = tbl_refreshToken db0,
         tbl_passwordRecovery =
           [\<lparr>pr_userId = ''u1'', pr_token = None, pr_expiry = None, pr_lastResetAt = None\<rparr>]\<rparr>,
        respond OK (Literal ''Password reset successfully'') EmptyObj)"
proof -
  have byid: "findUserById db0
                (pr_userId \<lparr>pr_userId = ''u1'', pr_token = Some ''reset1'',
                             pr_expiry = Some 4000000, pr_lastResetAt = None\<rparr>)
              = Some (selectById ana)"
    using ana_by_id by simp
  have exp: "getExpiryTime db0 (userId (selectById ana)) = Some (Some 4000000)"
    by (simp add: getExpiryTime_def selectById_def db0_def ana_def)
  have "resetPassword (ev0\<lparr>now := 4100000\<rparr>) db0 ''reset1''
          (newPasswords ''NewSecret1!'' ''NewSecret1!'')
        = storeNewPassword (ev0\<lparr>now := 4100000\<rparr>) db0 (selectById ana)
            \<lparr>newPassword = ''NewSecret1!'', confirmNewPassword = ''NewSecret1!''\<rparr>"
    using resetPassword_at_expiry_check [OF np_parsed ana_row byid ana_verified exp, of 4100000]
    by (simp add: diffMinutes_def)
  then show ?thesis by (simp only: ana_reset_in_time)
qed

theorem resetPassword_failure_keeps_store_witness:
  "reply (snd (resetPassword ev0 db0 ''reset1'' (newPasswords ''NewSecret1!'' ''NewSecret1!'')))
     = httpError (Msg TIMEOUT) (Some FORBIDDEN) \<and>
   fst (resetPassword ev0 db0 ''reset1'' (newPasswords ''NewSecret1!'' ''NewSecret1!'')) = db0 \<and>
   tbl_passwordRecovery
     (fst (resetPassword (ev0\<lparr>now := 4100000\<rparr>) db0 ''reset1''
             (newPasswords ''NewSecret1!'' ''NewSecret1!'')))
     \<noteq> tbl_passwordRecovery db0 \<and>
   getPasswordbyUserId
     (fst (resetPassword (ev0\<lparr>now := 4100000\<rparr>) db0 ''reset1''
             (newPasswords ''NewSecret1!'' ''NewSecret1!''))) ''u1''
     = Some ''#NewSecret1!''"
proof -
  let ?body = "newPasswords ''NewSecret1!'' ''NewSecret1!''"
  let ?ev = "ev0\<lparr>now := 4100000\<rparr>"
  have late: "reply (snd (resetPassword ev0 db0 ''reset1'' ?body))
                = httpError (Msg TIMEOUT) (Some FORBIDDEN)"
    by (simp add: ana_reset_late failWith_def)
  from resetPassword_failure_keeps_store [of ev0 db0 "''reset1''" ?body] late
  have kept: "fst (resetPassword ev0 db0 ''reset1'' ?body) = db0"
    by blast
  have after: "tbl_passwordRecovery (fst (resetPassword ?ev db0 ''reset1'' ?body))
                 = [\<lparr>pr_userId = ''u1'', pr_token = None, pr_expiry = None,
                     pr_lastResetAt = None\<rparr>]"
    by (simp add: ana_reset_early)
  have before: "tbl_passwordRecovery db0
                 = [\<lparr>pr_userId = ''u1'', pr_token = Some ''reset1'', pr_expiry = Some 4000000,
                     pr_lastResetAt = None\<rparr>]"
    by (simp add: db0_def)
  have changed: "tbl_passwordRecovery (fst (resetPassword ?ev db0 ''reset1'' ?body))
                   \<noteq> tbl_passwordRecovery db0"
    unfolding after before by simp
  from resetPassword_failure_keeps_store [of ?ev db0 "''reset1''" ?body] changed
  obtain parsed tokenData user where
      p: "resetPasswordSchema ?ev ?body = Inr parsed"
    and t: "findUserByResetToken db0 ''reset1'' = Some tokenData"
    and u: "findUserById db0 (pr_userId tokenData) = Some user"
    and g: "getPasswordbyUserId (fst (resetPassword ?ev db0 ''reset1'' ?body)) (userId user)
              = Some (hashPassword (quick ?ev) (newPassword parsed))"
    by blast
  from p have "newPassword parsed = ''NewSecret1!''"
    using np_parsed [of 4100000] by simp
  then have h: "hashPassword (quick ?ev) (newPassword parsed) = ''#NewSecret1!''"
    by (simp add: ev0_def quick0_def)
  from t have "pr_userId tokenData = ''u1''"
    using ana_row by auto
  with u have "userId user = ''u1''"
    using ana_by_id by (auto simp: selectById_def ana_def)
  with g h have stored: "getPasswordbyUserId (fst (resetPassword ?ev db0 ''reset1'' ?body)) ''u1''
              = Some ''#NewSecret1!''" by simp
  from late kept changed stored show ?thesis by (intro conjI)
qed

end
